theory Spec2Isabelle
  imports Main
begin

section \<open>Python values\<close>

text \<open>
  Request bodies and webhook payloads are what \<^verbatim>\<open>await request.json()\<close> returns: a
  parsed JSON value. A JSON object is a Python dict, kept here as an association list in
  insertion order and read with \<open>map_of\<close>.

  A \<open>string\<close> holds the UTF-8 bytes of a Python str. A JSON escape for a code point in
  U+D800..U+DFFF puts a lone surrogate into a str; it is kept here in the three-byte form
  \<open>ED A0..BF xx\<close>, which no well-formed text contains.

  A JSON number with a fraction or an exponent is a Python float: \<open>Finite neg m e\<close> is the
  double of magnitude \<open>m * 2 ^ e\<close>, negative when \<open>neg\<close> (so \<open>Finite True 0 e\<close> is
  \<^verbatim>\<open>-0.0\<close>); \<^verbatim>\<open>json.loads\<close> also reads \<^verbatim>\<open>Infinity\<close>, \<^verbatim>\<open>-Infinity\<close> and \<^verbatim>\<open>NaN\<close>.
\<close>

datatype pyfloat = Finite bool nat int | Infinity bool | NaN

datatype json =
    JNull
  | JBool bool
  | JInt int
  | JFloat pyfloat
  | JStr string
  | JArr "json list"
  | JObj "(string \<times> json) list"

text \<open>Python's truth value of a parsed JSON value, as used by \<^verbatim>\<open>or\<close>, \<^verbatim>\<open>not\<close> and \<^verbatim>\<open>if\<close>.\<close>

fun truthy :: "json \<Rightarrow> bool" where
  "truthy JNull = False"
| "truthy (JBool b) = b"
| "truthy (JInt i) = (i \<noteq> 0)"
| "truthy (JFloat (Finite neg m e)) = (m \<noteq> 0)"
| "truthy (JFloat (Infinity neg)) = True"
| "truthy (JFloat NaN) = True"
| "truthy (JStr s) = (s \<noteq> [])"
| "truthy (JArr xs) = (xs \<noteq> [])"
| "truthy (JObj kvs) = (kvs \<noteq> [])"

text \<open>\<^verbatim>\<open>a or b\<close> on values.\<close>

definition py_or :: "json \<Rightarrow> json \<Rightarrow> json" where
  "py_or a b = (if truthy a then a else b)"

text \<open>
  Exceptions that are not caught by a handler reach the framework, which answers 500;
  \<^verbatim>\<open>HTTPException (status, detail)\<close> is raised by the handlers themselves.
\<close>

text \<open>
  \<open>BindingError\<close> is what sqlite3 raises for a parameter of a type it cannot bind:
  \<^verbatim>\<open>sqlite3.InterfaceError\<close> before Python 3.11, \<^verbatim>\<open>sqlite3.ProgrammingError\<close> from 3.11 on.
\<close>

datatype exn =
    AttributeError | TypeError | ValueError | OverflowError | UnicodeEncodeError
  | BindingError | TransportError

datatype error = HTTPException nat string | Uncaught exn

text \<open>\<^verbatim>\<open>obj.get(key, default)\<close>: only a dict has the method.\<close>

fun py_get :: "json \<Rightarrow> string \<Rightarrow> json \<Rightarrow> exn + json" where
  "py_get (JObj kvs) k d = Inr (case map_of kvs k of None \<Rightarrow> d | Some v \<Rightarrow> v)"
| "py_get _ k d = Inl AttributeError"

text \<open>
  \<^verbatim>\<open>for t in obj\<close>: a list yields its items, a dict its keys, a str its characters (here
  one item for each byte; an item of a str is a str either way).
\<close>

fun py_iter :: "json \<Rightarrow> exn + json list" where
  "py_iter (JArr xs) = Inr xs"
| "py_iter (JObj kvs) = Inr (map (\<lambda>kv. JStr (fst kv)) kvs)"
| "py_iter (JStr s) = Inr (map (\<lambda>c. JStr [c]) s)"
| "py_iter _ = Inl TypeError"

text \<open>\<^verbatim>\<open>int(f)\<close> for a finite float: the fraction is cut off, towards zero.\<close>

definition float_trunc :: "bool \<Rightarrow> nat \<Rightarrow> int \<Rightarrow> int" where
  "float_trunc neg m e =
     (let q = (if 0 \<le> e then int m * 2 ^ nat e else int m div 2 ^ nat (- e))
      in if neg then - q else q)"

text \<open>
  \<^verbatim>\<open>int(v)\<close>. Parsing a str is Python's own (signs, underscores, Unicode digits): it is the
  parameter \<open>str_to_int\<close>, \<open>None\<close> where Python raises ValueError.
\<close>

fun py_int :: "(string \<Rightarrow> int option) \<Rightarrow> json \<Rightarrow> exn + int" where
  "py_int str_to_int (JInt i) = Inr i"
| "py_int str_to_int (JBool b) = Inr (if b then 1 else 0)"
| "py_int str_to_int (JFloat (Finite neg m e)) = Inr (float_trunc neg m e)"
| "py_int str_to_int (JFloat (Infinity neg)) = Inl OverflowError"
| "py_int str_to_int (JFloat NaN) = Inl ValueError"
| "py_int str_to_int (JStr s) = (case str_to_int s of None \<Rightarrow> Inl ValueError | Some i \<Rightarrow> Inr i)"
| "py_int str_to_int _ = Inl TypeError"

subsection \<open>Strings\<close>

text \<open>\<^verbatim>\<open>str(n)\<close> for an int: its decimal digits.\<close>

fun show_nat :: "nat \<Rightarrow> string" where
  "show_nat n = (if n < 10 then [char_of (48 + n)] else show_nat (n div 10) @ [char_of (48 + n mod 10)])"

definition show_int :: "int \<Rightarrow> string" where
  "show_int i = (if i < 0 then CHR ''-'' # show_nat (nat (- i)) else show_nat (nat i))"

text \<open>UTF-8 bytes of a list of code points, for the non-ASCII text of the source.\<close>

definition utf8_char :: "nat \<Rightarrow> string" where
  "utf8_char n =
     (if n < 0x80 then [char_of n]
      else if n < 0x800 then [char_of (0xC0 + n div 64), char_of (0x80 + n mod 64)]
      else if n < 0x10000 then
        [char_of (0xE0 + n div 4096), char_of (0x80 + n div 64 mod 64), char_of (0x80 + n mod 64)]
      else
        [char_of (0xF0 + n div 262144), char_of (0x80 + n div 4096 mod 64),
         char_of (0x80 + n div 64 mod 64), char_of (0x80 + n mod 64)])"

definition utf8 :: "nat list \<Rightarrow> string" where
  "utf8 cps = concat (map utf8_char cps)"

text \<open>
  The characters \<^verbatim>\<open>str.strip()\<close> removes (those with \<^verbatim>\<open>str.isspace()\<close>), as code points:
  U+0009..U+000D, U+001C..U+0020, U+0085, U+00A0, U+1680, U+2000..U+200A, U+2028, U+2029,
  U+202F, U+205F, U+3000. Each is listed by its UTF-8 bytes.
\<close>

definition py_whitespace :: "string list" where
  "py_whitespace =
    [[CHR 0x09], [CHR 0x0A], [CHR 0x0B], [CHR 0x0C], [CHR 0x0D], [CHR 0x1C], [CHR 0x1D],
     [CHR 0x1E], [CHR 0x1F], [CHR 0x20], [CHR 0xC2, CHR 0x85], [CHR 0xC2, CHR 0xA0],
     [CHR 0xE1, CHR 0x9A, CHR 0x80], [CHR 0xE2, CHR 0x80, CHR 0x80],
     [CHR 0xE2, CHR 0x80, CHR 0x81], [CHR 0xE2, CHR 0x80, CHR 0x82],
     [CHR 0xE2, CHR 0x80, CHR 0x83], [CHR 0xE2, CHR 0x80, CHR 0x84],
     [CHR 0xE2, CHR 0x80, CHR 0x85], [CHR 0xE2, CHR 0x80, CHR 0x86],
     [CHR 0xE2, CHR 0x80, CHR 0x87], [CHR 0xE2, CHR 0x80, CHR 0x88],
     [CHR 0xE2, CHR 0x80, CHR 0x89], [CHR 0xE2, CHR 0x80, CHR 0x8A],
     [CHR 0xE2, CHR 0x80, CHR 0xA8], [CHR 0xE2, CHR 0x80, CHR 0xA9],
     [CHR 0xE2, CHR 0x80, CHR 0xAF], [CHR 0xE2, CHR 0x81, CHR 0x9F],
     [CHR 0xE3, CHR 0x80, CHR 0x80]]"

text \<open>Drop every leading occurrence of one of the byte sequences \<open>ws\<close>.\<close>

function lstrip_with :: "string list \<Rightarrow> string \<Rightarrow> string" where
  "lstrip_with ws s =
     (case find (\<lambda>w. w \<noteq> [] \<and> take (length w) s = w) ws of
        None \<Rightarrow> s
      | Some w \<Rightarrow> lstrip_with ws (drop (length w) s))"
  by pat_completeness auto
termination
proof (relation "measure (\<lambda>(ws, s). length s)")
  show "wf (measure (\<lambda>(ws, s). length s))" by simp
next
  fix ws :: "string list" and s w :: string
  assume "find (\<lambda>w. w \<noteq> [] \<and> take (length w) s = w) ws = Some w"
  then have "w \<noteq> []" and "take (length w) s = w"
    by (auto simp: find_Some_iff)
  then have "s \<noteq> []" by auto
  with \<open>w \<noteq> []\<close> show "((ws, drop (length w) s), (ws, s)) \<in> measure (\<lambda>(ws, s). length s)"
    by simp
qed

definition strip :: "string \<Rightarrow> string" where
  "strip s = rev (lstrip_with (map rev py_whitespace) (rev (lstrip_with py_whitespace s)))"

text \<open>\<^verbatim>\<open>v.strip()\<close> on a value: only a str has the method.\<close>

fun py_strip :: "json \<Rightarrow> exn + string" where
  "py_strip (JStr s) = Inr (strip s)"
| "py_strip _ = Inl AttributeError"

section \<open>The database\<close>

text \<open>
  sqlite3 binds a str as its UTF-8 encoding, and a str with a lone surrogate has none:
  binding it raises UnicodeEncodeError. \<open>has_surrogate\<close> finds the three-byte form of a
  surrogate: the byte ED followed by a byte in A0..BF.
\<close>

definition surrogate_seconds :: "char list" where
  "surrogate_seconds =
     [CHR 0xA0, CHR 0xA1, CHR 0xA2, CHR 0xA3, CHR 0xA4, CHR 0xA5, CHR 0xA6, CHR 0xA7,
      CHR 0xA8, CHR 0xA9, CHR 0xAA, CHR 0xAB, CHR 0xAC, CHR 0xAD, CHR 0xAE, CHR 0xAF,
      CHR 0xB0, CHR 0xB1, CHR 0xB2, CHR 0xB3, CHR 0xB4, CHR 0xB5, CHR 0xB6, CHR 0xB7,
      CHR 0xB8, CHR 0xB9, CHR 0xBA, CHR 0xBB, CHR 0xBC, CHR 0xBD, CHR 0xBE, CHR 0xBF]"

fun has_surrogate :: "string \<Rightarrow> bool" where
  "has_surrogate (a # b # cs) =
     ((a = CHR 0xED \<and> b \<in> set surrogate_seconds) \<or> has_surrogate (b # cs))"
| "has_surrogate cs = False"

text \<open>
  \<^verbatim>\<open>json.dumps(v, ensure_ascii=False)\<close> writes the strings and the keys of \<open>v\<close> as they
  are, so the text can be bound only if none of them has a lone surrogate.
\<close>

fun dumps_has_surrogate :: "json \<Rightarrow> bool" where
  "dumps_has_surrogate (JStr s) = has_surrogate s"
| "dumps_has_surrogate (JArr xs) = list_ex dumps_has_surrogate xs"
| "dumps_has_surrogate (JObj kvs) =
     list_ex (\<lambda>kv. has_surrogate (fst kv) \<or> dumps_has_surrogate (snd kv)) kvs"
| "dumps_has_surrogate v = False"

text \<open>
  A TEXT column holds NULL (\<open>None\<close>) or text. \<open>to_text\<close> is what binding a Python value
  as a statement parameter and storing it under TEXT affinity gives: None is NULL, a str
  without lone surrogate is itself, an int (a bool is one) in the 64-bit range is its
  decimal text; a list or a dict cannot be bound. A float is bound as a REAL, which SQLite
  turns into text on storing: that rendering is the parameter \<open>real_text\<close> (\<open>None\<close> for
  NaN, which SQLite stores as NULL). Comparing a TEXT column with a parameter converts the
  parameter the same way.
\<close>

fun to_text :: "(pyfloat \<Rightarrow> string option) \<Rightarrow> json \<Rightarrow> exn + string option" where
  "to_text real_text JNull = Inr None"
| "to_text real_text (JStr s) = (if has_surrogate s then Inl UnicodeEncodeError else Inr (Some s))"
| "to_text real_text (JBool b) = Inr (Some (if b then ''1'' else ''0''))"
| "to_text real_text (JInt i) =
     (if - (2 ^ 63) \<le> i \<and> i < 2 ^ 63 then Inr (Some (show_int i)) else Inl OverflowError)"
| "to_text real_text (JFloat f) = Inr (real_text f)"
| "to_text real_text (JArr xs) = Inl BindingError"
| "to_text real_text (JObj kvs) = Inl BindingError"

text \<open>
  Table \<^verbatim>\<open>merchants\<close>. \<open>store_id\<close> is TEXT UNIQUE; the only INSERT of the source gives it
  a str, so it is a string here.
\<close>

record merchant =
  m_id :: nat
  store_id :: string
  store_domain :: "string option"
  access_token :: "string option"
  refresh_token :: "string option"
  token_expires_at :: "int option"
  waba_token :: "string option"
  waba_phone_id :: "string option"
  plan :: "string option"
  plan_until :: "int option"
  created_at :: "int option"

text \<open>Table \<^verbatim>\<open>store_settings\<close>; \<^verbatim>\<open>settings_json\<close> holds \<^verbatim>\<open>json.dumps\<close> of the value kept here.\<close>

record settings_row =
  ss_id :: nat
  ss_store_id :: string
  settings_json :: json
  updated_at :: int

text \<open>Table \<^verbatim>\<open>templates\<close>.\<close>

record template_row =
  t_id :: nat
  t_store_id :: string
  tkey :: "string option"
  display_name :: "string option"
  body :: "string option"

text \<open>Table \<^verbatim>\<open>events\<close>; \<^verbatim>\<open>payload\<close> holds \<^verbatim>\<open>json.dumps\<close> of the value kept here.\<close>

record event_row =
  e_id :: nat
  e_store_id :: "string option"
  event_type :: "string option"
  payload :: json
  e_created_at :: int

text \<open>Table \<^verbatim>\<open>logs\<close>; \<^verbatim>\<open>error\<close> holds \<^verbatim>\<open>json.dumps\<close> of the value kept here.\<close>

record log_row =
  l_id :: nat
  l_store_id :: string
  to_msisdn :: string
  template :: string
  status :: string
  error :: json
  l_created_at :: int

text \<open>
  The five tables, each with the largest id AUTOINCREMENT has given out so far
  (\<^verbatim>\<open>sqlite_sequence\<close>).
\<close>

record db =
  merchants :: "merchant list"
  store_settings :: "settings_row list"
  settings_seq :: nat
  templates :: "template_row list"
  templates_seq :: nat
  events :: "event_row list"
  events_seq :: nat
  logs :: "log_row list"
  logs_seq :: nat

text \<open>The id AUTOINCREMENT gives a new row: one more than every id used before.\<close>

definition next_id :: "nat \<Rightarrow> nat list \<Rightarrow> nat" where
  "next_id seq ids = Suc (fold max ids seq)"

section \<open>Tenant resolution\<close>

text \<open>
  \<^verbatim>\<open>get_store(sid)\<close>: \<^verbatim>\<open>if sid:\<close> is false for None and for the empty str.
  \<^verbatim>\<open>ORDER BY id DESC LIMIT 2\<close> is the first two rows of the table sorted by id, reversed.
\<close>

definition get_store :: "db \<Rightarrow> string option \<Rightarrow> merchant option" where
  "get_store d sid =
     (case sid of
        Some s \<Rightarrow>
          if s \<noteq> [] then find (\<lambda>m. store_id m = s) (merchants d)
          else (case take 2 (rev (sort_key m_id (merchants d))) of
                  [] \<Rightarrow> None
                | [m] \<Rightarrow> Some m
                | _ \<Rightarrow> None)
      | None \<Rightarrow>
          (case take 2 (rev (sort_key m_id (merchants d))) of
             [] \<Rightarrow> None
           | [m] \<Rightarrow> Some m
           | _ \<Rightarrow> None))"

text \<open>\<^verbatim>\<open>GET /api/store\<close>.\<close>

definition api_store :: "db \<Rightarrow> string option \<Rightarrow> error + merchant" where
  "api_store d sid =
     (case get_store d sid of
        None \<Rightarrow>
          Inl (HTTPException 404
                 (''Store not found. '' @ utf8 [0x627, 0x633, 0x62A, 0x62E, 0x62F, 0x645] @ '' ?sid=...''))
      | Some store \<Rightarrow> Inr store)"

section \<open>Defaults and the seeder\<close>

definition DEFAULT_SETTINGS_enabled :: json where
  "DEFAULT_SETTINGS_enabled =
     JObj [(''order_created'', JBool True), (''order_paid'', JBool True),
           (''order_fulfilled'', JBool True), (''out_for_delivery'', JBool True),
           (''delivered'', JBool True), (''order_canceled'', JBool True),
           (''refund_created'', JBool True)]"

definition DEFAULT_SETTINGS :: json where
  "DEFAULT_SETTINGS = JObj [(''enabled'', DEFAULT_SETTINGS_enabled), (''rate_limit_mps'', JInt 60)]"

text \<open>\<^verbatim>\<open>DEFAULT_TEMPLATES\<close>: (tkey, display_name, body) of each entry, in the source's order.\<close>

definition DEFAULT_TEMPLATES :: "(string \<times> string \<times> string) list" where
  "DEFAULT_TEMPLATES =
    [(''order_created'',
      utf8 [0x62A, 0x645] @ '' '' @ utf8 [0x625, 0x646, 0x634, 0x627, 0x621] @ '' ''
        @ utf8 [0x627, 0x644, 0x637, 0x644, 0x628],
      utf8 [0x64A, 0x627] @ '' {name} '' @ utf8 [0x1F389] @ '' '' @ utf8 [0x62A, 0x645]
        @ '' '' @ utf8 [0x627, 0x633, 0x62A, 0x644, 0x627, 0x645] @ '' ''
        @ utf8 [0x637, 0x644, 0x628, 0x643] @ '' #{order_no}. ''
        @ utf8 [0x631, 0x627, 0x628, 0x637] @ '' ''
        @ utf8 [0x627, 0x644, 0x637, 0x644, 0x628] @ '': {order_url}''),
     (''order_paid'',
      utf8 [0x62A, 0x645] @ '' '' @ utf8 [0x627, 0x644, 0x62F, 0x641, 0x639],
      utf8 [0x64A, 0x627] @ '' {name} '' @ utf8 [0x2728] @ '' '' @ utf8 [0x62A, 0x645]
        @ '' '' @ utf8 [0x62A, 0x623, 0x643, 0x64A, 0x62F] @ '' ''
        @ utf8 [0x62F, 0x641, 0x639] @ '' '' @ utf8 [0x637, 0x644, 0x628, 0x643]
        @ '' #{order_no} '' @ utf8 [0x2705] @ '' ''
        @ utf8 [0x633, 0x646, 0x637, 0x644, 0x639, 0x643] @ '' ''
        @ utf8 [0x639, 0x644, 0x649] @ '' '' @ utf8 [0x62D, 0x627, 0x644, 0x629] @ '' ''
        @ utf8 [0x627, 0x644, 0x634, 0x62D, 0x646] @ '' ''
        @ utf8 [0x623, 0x648, 0x644, 0x627, 0x64B] @ '' ''
        @ utf8 [0x628, 0x623, 0x648, 0x644] @ ''.''),
     (''order_fulfilled'',
      utf8 [0x62A, 0x645] @ '' '' @ utf8 [0x627, 0x644, 0x634, 0x62D, 0x646],
      utf8 [0x64A, 0x627] @ '' {name} '' @ utf8 [0x1F4E6] @ '' '' @ utf8 [0x62A, 0x645]
        @ '' '' @ utf8 [0x634, 0x62D, 0x646] @ '' '' @ utf8 [0x637, 0x644, 0x628, 0x643]
        @ '' #{order_no}. '' @ utf8 [0x631, 0x642, 0x645] @ '' ''
        @ utf8 [0x627, 0x644, 0x62A, 0x62A, 0x628, 0x639] @ '': {tracking_no}''),
     (''out_for_delivery'',
      utf8 [0x62E, 0x627, 0x631, 0x62C] @ '' ''
        @ utf8 [0x644, 0x644, 0x62A, 0x633, 0x644, 0x64A, 0x645],
      utf8 [0x64A, 0x627] @ '' {name} '' @ utf8 [0x1F69A] @ '' ''
        @ utf8 [0x637, 0x644, 0x628, 0x643] @ '' #{order_no} '' @ utf8 [0x641, 0x64A]
        @ '' '' @ utf8 [0x627, 0x644, 0x637, 0x631, 0x64A, 0x642] @ '' ''
        @ utf8 [0x625, 0x644, 0x64A, 0x643] @ ''.''),
     (''delivered'',
      utf8 [0x62A, 0x645] @ '' '' @ utf8 [0x627, 0x644, 0x62A, 0x633, 0x644, 0x64A, 0x645],
      utf8 [0x64A, 0x627] @ '' {name} '' @ utf8 [0x2705] @ '' '' @ utf8 [0x62A, 0x645]
        @ '' '' @ utf8 [0x62A, 0x633, 0x644, 0x64A, 0x645] @ '' ''
        @ utf8 [0x637, 0x644, 0x628, 0x643] @ '' #{order_no}. ''
        @ utf8 [0x646, 0x62A, 0x645, 0x646, 0x649] @ '' '' @ utf8 [0x644, 0x643] @ '' ''
        @ utf8 [0x62A, 0x62C, 0x631, 0x628, 0x629] @ '' ''
        @ utf8 [0x645, 0x645, 0x62A, 0x639, 0x629] @ ''.''),
     (''order_canceled'',
      utf8 [0x62A, 0x645] @ '' '' @ utf8 [0x627, 0x644, 0x625, 0x644, 0x63A, 0x627, 0x621],
      utf8 [0x64A, 0x624, 0x633, 0x641, 0x646, 0x627] @ '' ''
        @ utf8 [0x625, 0x628, 0x644, 0x627, 0x63A, 0x643] @ '' ''
        @ utf8 [0x628, 0x625, 0x644, 0x63A, 0x627, 0x621] @ '' ''
        @ utf8 [0x637, 0x644, 0x628, 0x643] @ '' #{order_no}. ''
        @ utf8 [0x644, 0x623, 0x64A] @ '' ''
        @ utf8 [0x627, 0x633, 0x62A, 0x641, 0x633, 0x627, 0x631] @ '' ''
        @ utf8 [0x646, 0x62D, 0x646] @ '' '' @ utf8 [0x647, 0x646, 0x627] @ '' ''
        @ utf8 [0x62F, 0x627, 0x626, 0x645, 0x64B, 0x627] @ ''.''),
     (''refund_created'',
      utf8 [0x627, 0x633, 0x62A, 0x631, 0x62C, 0x627, 0x639],
      utf8 [0x62A, 0x645] @ '' '' @ utf8 [0x641, 0x62A, 0x62D] @ '' ''
        @ utf8 [0x637, 0x644, 0x628] @ '' ''
        @ utf8 [0x627, 0x633, 0x62A, 0x631, 0x62C, 0x627, 0x639] @ '' ''
        @ utf8 [0x644, 0x644, 0x637, 0x644, 0x628] @ '' #{order_no}. ''
        @ utf8 [0x633, 0x64A, 0x62A, 0x648, 0x627, 0x635, 0x644] @ '' ''
        @ utf8 [0x641, 0x631, 0x64A, 0x642, 0x646, 0x627] @ '' ''
        @ utf8 [0x645, 0x639, 0x643] @ '' ''
        @ utf8 [0x628, 0x627, 0x644, 0x62A, 0x641, 0x627, 0x635, 0x64A, 0x644] @ ''.'')]"

definition PLACEHOLDERS :: "string list" where
  "PLACEHOLDERS = [''{name}'', ''{order_no}'', ''{order_url}'', ''{tracking_no}'']"

text \<open>
  \<^verbatim>\<open>INSERT OR IGNORE INTO store_settings\<close>: no row is written when UNIQUE(store_id) would be
  broken. The statement has taken its id from the sequence by then, so the sequence moves on
  either way.
\<close>

definition insert_or_ignore_settings :: "string \<Rightarrow> json \<Rightarrow> int \<Rightarrow> db \<Rightarrow> db" where
  "insert_or_ignore_settings sid js ts d =
     (let i = next_id (settings_seq d) (map ss_id (store_settings d))
      in if list_ex (\<lambda>r. ss_store_id r = sid) (store_settings d) then d\<lparr>settings_seq := i\<rparr>
         else d\<lparr>store_settings := store_settings d @
                  [\<lparr>ss_id = i, ss_store_id = sid, settings_json = js, updated_at = ts\<rparr>],
                settings_seq := i\<rparr>)"

text \<open>\<^verbatim>\<open>INSERT OR REPLACE INTO store_settings\<close>: the rows that break UNIQUE(store_id) are deleted, then the new row is inserted.\<close>

definition insert_or_replace_settings :: "string \<Rightarrow> json \<Rightarrow> int \<Rightarrow> db \<Rightarrow> db" where
  "insert_or_replace_settings sid js ts d =
     (let i = next_id (settings_seq d) (map ss_id (store_settings d))
      in d\<lparr>store_settings := filter (\<lambda>r. ss_store_id r \<noteq> sid) (store_settings d) @
              [\<lparr>ss_id = i, ss_store_id = sid, settings_json = js, updated_at = ts\<rparr>],
            settings_seq := i\<rparr>)"

text \<open>
  \<^verbatim>\<open>INSERT OR IGNORE INTO templates\<close>. UNIQUE(store_id, tkey) is broken only by a row with the
  same store_id and the same non-NULL tkey: NULLs are distinct from each other. An ignored
  insert writes no row, and the sequence moves on all the same.
\<close>

definition insert_or_ignore_template ::
  "string \<Rightarrow> string option \<Rightarrow> string option \<Rightarrow> string option \<Rightarrow> db \<Rightarrow> db" where
  "insert_or_ignore_template sid k disp txt d =
     (let i = next_id (templates_seq d) (map t_id (templates d))
      in if k \<noteq> None \<and> list_ex (\<lambda>r. t_store_id r = sid \<and> tkey r = k) (templates d)
         then d\<lparr>templates_seq := i\<rparr>
         else d\<lparr>templates := templates d @
                  [\<lparr>t_id = i, t_store_id = sid, tkey = k, display_name = disp, body = txt\<rparr>],
                templates_seq := i\<rparr>)"

text \<open>\<^verbatim>\<open>ensure_defaults(store_id)\<close> at time \<open>ts\<close>.\<close>

definition ensure_defaults :: "int \<Rightarrow> string \<Rightarrow> db \<Rightarrow> db" where
  "ensure_defaults ts sid d =
     fold (\<lambda>t. insert_or_ignore_template sid (Some (fst t)) (Some (fst (snd t))) (Some (snd (snd t))))
       DEFAULT_TEMPLATES
       (case find (\<lambda>r. ss_store_id r = sid) (store_settings d) of
          None \<Rightarrow> insert_or_ignore_settings sid DEFAULT_SETTINGS ts d
        | Some row \<Rightarrow> d)"

section \<open>The dashboard API\<close>

text \<open>
  A handler returns its outcome and the database it leaves; an exception keeps the
  statements already executed on the shared connection.
\<close>

definition ok_response :: json where
  "ok_response = JObj [(''ok'', JBool True)]"

text \<open>
  \<^verbatim>\<open>POST /api/settings\<close>. The row holds \<^verbatim>\<open>json.dumps(settings, ensure_ascii=False)\<close>;
  binding that text is where a lone surrogate in the submitted map makes the INSERT raise.
\<close>

definition api_save_settings ::
  "(string \<Rightarrow> int option) \<Rightarrow> int \<Rightarrow> db \<Rightarrow> string option \<Rightarrow> json \<Rightarrow> (error + json) \<times> db" where
  "api_save_settings str_to_int ts d sid req =
     (case get_store d sid of
        None \<Rightarrow> (Inl (HTTPException 404 ''Store not found''), d)
      | Some store \<Rightarrow>
          (case py_get req ''enabled'' JNull of
             Inl e \<Rightarrow> (Inl (Uncaught e), d)
           | Inr en \<Rightarrow>
               (case py_get req ''rate_limit_mps'' JNull of
                  Inl e \<Rightarrow> (Inl (Uncaught e), d)
                | Inr rl \<Rightarrow>
                    (case py_int str_to_int (py_or rl (JInt 60)) of
                       Inl e \<Rightarrow> (Inl (Uncaught e), d)
                     | Inr rate_limit_mps \<Rightarrow>
                         if dumps_has_surrogate
                              (JObj [(''enabled'', py_or en DEFAULT_SETTINGS_enabled),
                                     (''rate_limit_mps'', JInt rate_limit_mps)])
                         then (Inl (Uncaught UnicodeEncodeError), d)
                         else
                           (Inr ok_response,
                            insert_or_replace_settings (store_id store)
                              (JObj [(''enabled'', py_or en DEFAULT_SETTINGS_enabled),
                                     (''rate_limit_mps'', JInt rate_limit_mps)]) ts d)))))"

text \<open>\<^verbatim>\<open>SELECT tkey, display_name, body FROM templates WHERE store_id=? ORDER BY id\<close>.\<close>

definition select_templates :: "db \<Rightarrow> string \<Rightarrow> (string option \<times> string option \<times> string option) list" where
  "select_templates d sid =
     map (\<lambda>r. (tkey r, display_name r, body r))
       (sort_key t_id (filter (\<lambda>r. t_store_id r = sid) (templates d)))"

text \<open>\<^verbatim>\<open>GET /api/templates\<close>.\<close>

definition api_get_templates ::
  "int \<Rightarrow> db \<Rightarrow> string option \<Rightarrow>
     (error + (string option \<times> string option \<times> string option) list) \<times> db" where
  "api_get_templates ts d sid =
     (case get_store d sid of
        None \<Rightarrow> (Inl (HTTPException 404 ''Store not found''), d)
      | Some store \<Rightarrow>
          (if select_templates d (store_id store) = []
           then (Inr (select_templates (ensure_defaults ts (store_id store) d) (store_id store)),
                 ensure_defaults ts (store_id store) d)
           else (Inr (select_templates d (store_id store)), d)))"

text \<open>\<^verbatim>\<open>UPDATE templates SET display_name=?, body=? WHERE store_id=? AND tkey=?\<close>: a NULL tkey matches no row.\<close>

definition update_template ::
  "string \<Rightarrow> string option \<Rightarrow> string option \<Rightarrow> string option \<Rightarrow> db \<Rightarrow> db" where
  "update_template sid k disp txt d =
     d\<lparr>templates :=
         map (\<lambda>r. if k \<noteq> None \<and> t_store_id r = sid \<and> tkey r = k
                  then r\<lparr>display_name := disp, body := txt\<rparr> else r)
           (templates d)\<rparr>"

text \<open>
  One round of the loop of \<^verbatim>\<open>api_save_templates\<close>, for the entry \<open>t\<close>. The parameters of
  the INSERT are bound in their order; the UPDATE binds the same values again.
\<close>

definition save_template ::
  "(pyfloat \<Rightarrow> string option) \<Rightarrow> string \<Rightarrow> json \<Rightarrow> db \<Rightarrow> exn + db" where
  "save_template real_text sid t d =
     (case py_get t ''tkey'' JNull of
        Inl e \<Rightarrow> Inl e
      | Inr k \<Rightarrow>
          (case py_get t ''display_name'' JNull of
             Inl e \<Rightarrow> Inl e
           | Inr dn \<Rightarrow>
               (case py_get t ''body'' JNull of
                  Inl e \<Rightarrow> Inl e
                | Inr b \<Rightarrow>
                    (case to_text real_text k of
                       Inl e \<Rightarrow> Inl e
                     | Inr tk \<Rightarrow>
                         (case to_text real_text (py_or dn k) of
                            Inl e \<Rightarrow> Inl e
                          | Inr disp \<Rightarrow>
                              (case to_text real_text (py_or b (JStr [])) of
                                 Inl e \<Rightarrow> Inl e
                               | Inr txt \<Rightarrow>
                                   Inr (update_template sid tk disp txt
                                          (insert_or_ignore_template sid tk disp txt d))))))))"

fun save_templates_loop ::
  "(pyfloat \<Rightarrow> string option) \<Rightarrow> string \<Rightarrow> json list \<Rightarrow> db \<Rightarrow> exn option \<times> db" where
  "save_templates_loop real_text sid [] d = (None, d)"
| "save_templates_loop real_text sid (t # ts) d =
     (case save_template real_text sid t d of
        Inl e \<Rightarrow> (Some e, d)
      | Inr d' \<Rightarrow> save_templates_loop real_text sid ts d')"

text \<open>\<^verbatim>\<open>POST /api/templates\<close>.\<close>

definition api_save_templates ::
  "(pyfloat \<Rightarrow> string option) \<Rightarrow> db \<Rightarrow> string option \<Rightarrow> json \<Rightarrow> (error + json) \<times> db" where
  "api_save_templates real_text d sid req =
     (case get_store d sid of
        None \<Rightarrow> (Inl (HTTPException 404 ''Store not found''), d)
      | Some store \<Rightarrow>
          (case py_get req ''templates'' JNull of
             Inl e \<Rightarrow> (Inl (Uncaught e), d)
           | Inr tv \<Rightarrow>
               (case py_iter (py_or tv (JArr [])) of
                  Inl e \<Rightarrow> (Inl (Uncaught e), d)
                | Inr tpls \<Rightarrow>
                    (case save_templates_loop real_text (store_id store) tpls d of
                       (Some e, d') \<Rightarrow> (Inl (Uncaught e), d')
                     | (None, d') \<Rightarrow> (Inr ok_response, d')))))"

text \<open>
  The entry the dashboard's \<^verbatim>\<open>saveTemplates\<close> submits for a template:
  \<^verbatim>\<open>{tkey, display_name, body}\<close>, three strings.
\<close>

definition template_entry :: "string \<times> string \<times> string \<Rightarrow> json" where
  "template_entry e =
     JObj [(''tkey'', JStr (fst e)), (''display_name'', JStr (fst (snd e))),
           (''body'', JStr (snd (snd e)))]"

text \<open>
  What one round of the loop of \<^verbatim>\<open>api_save_templates\<close> comes to for such an entry: the
  INSERT OR IGNORE, then the UPDATE, with \<^verbatim>\<open>display_name or tkey\<close> as the display name.
\<close>

definition entry_round :: "string \<Rightarrow> string \<times> string \<times> string \<Rightarrow> db \<Rightarrow> db" where
  "entry_round sid e d =
     update_template sid (Some (fst e))
       (Some (if fst (snd e) = [] then fst e else fst (snd e))) (Some (snd (snd e)))
       (insert_or_ignore_template sid (Some (fst e))
          (Some (if fst (snd e) = [] then fst e else fst (snd e))) (Some (snd (snd e))) d)"


section \<open>Sending\<close>

text \<open>The settings read from the environment at start-up that the handlers below use.\<close>

record config =
  GLOBAL_WABA_TOKEN :: string
  GLOBAL_WABA_PHONE_ID :: string
  WABA_API_BASE :: string
  SALLA_WEBHOOK_SEC :: string

text \<open>
  The request \<^verbatim>\<open>send_whatsapp_text\<close> posts. The HTTP client is the parameter \<open>post\<close>: it
  raises, or answers with the status code and the response body. \<open>JsonReply v\<close> is a body
  \<^verbatim>\<open>resp.json()\<close> decodes, to \<open>v\<close>; \<open>RawReply bs\<close> is one it does not, for which
  \<^verbatim>\<open>send_whatsapp_text\<close> returns the dict \<^verbatim>\<open>{"text": bs}\<close> holding the bytes read.
\<close>

datatype reply = JsonReply json | RawReply string

record http_request =
  url :: string
  authorization :: string
  json_body :: json

definition whatsapp_request :: "config \<Rightarrow> string \<Rightarrow> string \<Rightarrow> string \<Rightarrow> string \<Rightarrow> http_request" where
  "whatsapp_request cfg wtk wpid to_no msg =
     \<lparr>url = WABA_API_BASE cfg @ ''/'' @ wpid @ ''/messages'',
      authorization = ''Bearer '' @ wtk,
      json_body =
        JObj [(''messaging_product'', JStr ''whatsapp''), (''to'', JStr to_no),
              (''type'', JStr ''text''),
              (''text'', JObj [(''preview_url'', JBool False), (''body'', JStr msg)])]\<rparr>"

text \<open>\<^verbatim>\<open>store["waba_token"] or GLOBAL_WABA_TOKEN\<close>: NULL and the empty text are false.\<close>

definition column_or :: "string option \<Rightarrow> string \<Rightarrow> string" where
  "column_or c g = (case c of None \<Rightarrow> g | Some s \<Rightarrow> if s \<noteq> [] then s else g)"

text \<open>
  \<^verbatim>\<open>POST /api/test-send\<close>. The result is the outcome, the database left, and the requests
  posted to the messaging API, in order. After the send, the arguments of the INSERT are
  computed first: \<^verbatim>\<open>json.dumps\<close> raises TypeError on the bytes of a raw reply. Then
  \<^verbatim>\<open>to_msisdn\<close> is bound, the one parameter that comes from the request.
\<close>

definition api_test_send ::
  "config \<Rightarrow> (http_request \<Rightarrow> exn + int \<times> reply) \<Rightarrow> int \<Rightarrow> db \<Rightarrow> string option \<Rightarrow> json \<Rightarrow>
     (error + int \<times> json) \<times> db \<times> http_request list" where
  "api_test_send cfg post ts d sid req =
     (case get_store d sid of
        None \<Rightarrow> (Inl (HTTPException 404 ''Store not found''), d, [])
      | Some store \<Rightarrow>
          (case py_get req ''to_msisdn'' JNull of
             Inl e \<Rightarrow> (Inl (Uncaught e), d, [])
           | Inr a \<Rightarrow>
               (case py_strip (py_or a (JStr [])) of
                  Inl e \<Rightarrow> (Inl (Uncaught e), d, [])
                | Inr to_no \<Rightarrow>
                    (case py_get req ''body'' JNull of
                       Inl e \<Rightarrow> (Inl (Uncaught e), d, [])
                     | Inr b \<Rightarrow>
                         (case py_strip (py_or b (JStr [])) of
                            Inl e \<Rightarrow> (Inl (Uncaught e), d, [])
                          | Inr msg_body \<Rightarrow>
                              if to_no = [] \<or> msg_body = []
                              then (Inl (HTTPException 400 ''Missing to_msisdn/body''), d, [])
                              else
                                (let wtk = column_or (waba_token store) (GLOBAL_WABA_TOKEN cfg);
                                     wpid = column_or (waba_phone_id store) (GLOBAL_WABA_PHONE_ID cfg)
                                 in if wtk = [] \<or> wpid = []
                                    then (Inl (HTTPException 400 ''WABA not configured for this store''), d, [])
                                    else
                                      (case post (whatsapp_request cfg wtk wpid to_no msg_body) of
                                         Inl e \<Rightarrow>
                                           (Inl (Uncaught e), d,
                                            [whatsapp_request cfg wtk wpid to_no msg_body])
                                       | Inr res \<Rightarrow>
                                           (case snd res of
                                              RawReply bs \<Rightarrow>
                                                (Inl (Uncaught TypeError), d,
                                                 [whatsapp_request cfg wtk wpid to_no msg_body])
                                            | JsonReply data \<Rightarrow>
                                                if has_surrogate to_no
                                                then (Inl (Uncaught UnicodeEncodeError), d,
                                                      [whatsapp_request cfg wtk wpid to_no msg_body])
                                                else
                                                  (Inr (fst res, data),
                                                   d\<lparr>logs := logs d @
                                                         [\<lparr>l_id = next_id (logs_seq d) (map l_id (logs d)),
                                                           l_store_id = store_id store,
                                                           to_msisdn = to_no,
                                                           template = ''manual_test'',
                                                           status = show_int (fst res),
                                                           error = data,
                                                           l_created_at = ts\<rparr>],
                                                     logs_seq := next_id (logs_seq d) (map l_id (logs d))\<rparr>,
                                                   [whatsapp_request cfg wtk wpid to_no msg_body])))))))))"

text \<open>The two client errors of \<^verbatim>\<open>api_test_send\<close>, under the names of the specification.\<close>

definition InvalidInput :: error where
  "InvalidInput = HTTPException 400 ''Missing to_msisdn/body''"

definition CredentialsMissing :: error where
  "CredentialsMissing = HTTPException 400 ''WABA not configured for this store''"

section \<open>The webhook\<close>

text \<open>
  \<^verbatim>\<open>POST /webhook\<close>. \<open>sig_ok\<close> is the result of \<^verbatim>\<open>hmac.compare_digest\<close> on the request's
  signature; \<open>p\<close> is the parsed body. The parameters of the INSERT are bound in their
  order: the store id, the event type, then \<^verbatim>\<open>json.dumps(payload, ensure_ascii=False)\<close>,
  a text that keeps every lone surrogate of the payload. The event row holds the parsed
  payload for that text.
\<close>

definition webhook ::
  "(pyfloat \<Rightarrow> string option) \<Rightarrow> config \<Rightarrow> bool \<Rightarrow> int \<Rightarrow> db \<Rightarrow> json \<Rightarrow> (error + json) \<times> db" where
  "webhook real_text cfg sig_ok ts d p =
     (if SALLA_WEBHOOK_SEC cfg \<noteq> [] \<and> \<not> sig_ok
      then (Inl (HTTPException 401 ''Invalid signature''), d)
      else
        (case py_get p ''event'' JNull of
           Inl e \<Rightarrow> (Inl (Uncaught e), d)
         | Inr ev \<Rightarrow>
             (case (if truthy ev then Inr ev else py_get p ''type'' (JStr ''unknown'')) of
                Inl e \<Rightarrow> (Inl (Uncaught e), d)
              | Inr etype \<Rightarrow>
                  (case py_get p ''store_id'' (JStr ''unknown'') of
                     Inl e \<Rightarrow> (Inl (Uncaught e), d)
                   | Inr sid \<Rightarrow>
                       (case to_text real_text sid of
                          Inl e \<Rightarrow> (Inl (Uncaught e), d)
                        | Inr sid_text \<Rightarrow>
                            (case to_text real_text etype of
                               Inl e \<Rightarrow> (Inl (Uncaught e), d)
                             | Inr etype_text \<Rightarrow>
                                 if dumps_has_surrogate p
                                 then (Inl (Uncaught UnicodeEncodeError), d)
                                 else
                                   (Inr ok_response,
                                    d\<lparr>events := events d @
                                          [\<lparr>e_id = next_id (events_seq d) (map e_id (events d)),
                                            e_store_id = sid_text,
                                            event_type = etype_text,
                                            payload = p,
                                            e_created_at = ts\<rparr>],
                                      events_seq := next_id (events_seq d) (map e_id (events d))\<rparr>)))))))"

section \<open>The preview renderer\<close>

text \<open>
  JavaScript's \<^verbatim>\<open>s.replaceAll(pat, rep)\<close> for a string pattern: matches are taken from left
  to right and do not overlap. The replacement is inserted as it is (the four replacements
  of \<^verbatim>\<open>updatePreview\<close> contain no \<^verbatim>\<open>$\<close>). An empty pattern matches before and after every
  character; \<^verbatim>\<open>updatePreview\<close> has none.
\<close>

function replaceAll :: "string \<Rightarrow> string \<Rightarrow> string \<Rightarrow> string" where
  "replaceAll pat rep s =
     (if pat = [] then rep @ concat (map (\<lambda>c. c # rep) s)
      else if s = [] then []
      else if take (length pat) s = pat then rep @ replaceAll pat rep (drop (length pat) s)
      else hd s # replaceAll pat rep (tl s))"
  by pat_completeness auto
termination
  by (relation "measure (\<lambda>(pat, rep, s). length s)") auto

declare replaceAll.simps [simp del]

text \<open>The text \<^verbatim>\<open>updatePreview\<close> writes into the preview box for a template body.\<close>

definition updatePreview :: "string \<Rightarrow> string" where
  "updatePreview b =
     replaceAll ''{tracking_no}'' ''TRK123''
       (replaceAll ''{order_url}'' ''https://salla.sa/orders/12345''
          (replaceAll ''{order_no}'' ''12345''
             (replaceAll ''{name}'' (utf8 [0x639, 0x645, 0x64A, 0x644, 0x646, 0x627]) b)))"

text \<open>The sample values \<^verbatim>\<open>updatePreview\<close> puts in, by placeholder name.\<close>

definition preview_values :: "(string \<times> string) list" where
  "preview_values =
     [(''name'', utf8 [0x639, 0x645, 0x64A, 0x644, 0x646, 0x627]), (''order_no'', ''12345''),
      (''order_url'', ''https://salla.sa/orders/12345''), (''tracking_no'', ''TRK123'')]"

text \<open>
  Modelled from the spec: the name a placeholder stands for, \<^verbatim>\<open>name\<close> for \<^verbatim>\<open>{name}\<close>; the
  mapping of the specified renderer is keyed by it.
\<close>

definition placeholder_name :: "string \<Rightarrow> string" where
  "placeholder_name p = butlast (tl p)"

text \<open>
  Modelled from the spec: the substitution of one recognized placeholder \<open>p\<close> in the
  specified renderer. Every occurrence is replaced by the supplied text, literally; when
  the mapping supplies nothing for \<open>p\<close> the body is left as it is.
\<close>

definition render_step :: "(string \<times> string) list \<Rightarrow> string \<Rightarrow> string \<Rightarrow> string" where
  "render_step m p b = (case map_of m (placeholder_name p) of None \<Rightarrow> b | Some v \<Rightarrow> replaceAll p v b)"

text \<open>
  Modelled from the spec: the Template Renderer of section 4.5, a function of a template
  body and a mapping from placeholder name to replacement text. The source has no such
  function; it has the list \<^verbatim>\<open>PLACEHOLDERS\<close> and the dashboard's \<^verbatim>\<open>updatePreview\<close>, which
  renders with fixed values. Following the specification, every occurrence of each
  recognized placeholder is replaced by the text the mapping supplies for its name, by
  literal substitution, and a placeholder whose name is not supplied is left as it is. The
  placeholders are taken in the order of \<^verbatim>\<open>PLACEHOLDERS\<close>.
\<close>

definition render :: "string \<Rightarrow> (string \<times> string) list \<Rightarrow> string" where
  "render b m = fold (render_step m) PLACEHOLDERS b"

section \<open>Sample data\<close>

definition shop_a :: merchant where
  "shop_a = \<lparr>m_id = 1, store_id = ''store-1'', store_domain = Some ''example.salla.sa'',
     access_token = Some ''at-1'', refresh_token = Some ''rt-1'', token_expires_at = Some 3600,
     waba_token = None, waba_phone_id = None, plan = Some ''basic'', plan_until = None,
     created_at = Some 0\<rparr>"

definition shop_b :: merchant where
  "shop_b = \<lparr>m_id = 2, store_id = ''store-2'', store_domain = Some ''example.salla.sa'',
     access_token = Some ''at-2'', refresh_token = Some ''rt-2'', token_expires_at = Some 7200,
     waba_token = Some ''EAAG'', waba_phone_id = Some ''1234'', plan = Some ''basic'', plan_until = None,
     created_at = Some 5\<rparr>"

definition db_empty :: db where
  "db_empty = \<lparr>merchants = [], store_settings = [], settings_seq = 0, templates = [],
     templates_seq = 0, events = [], events_seq = 0, logs = [], logs_seq = 0\<rparr>"

definition db_one :: db where "db_one = db_empty\<lparr>merchants := [shop_a]\<rparr>"
definition db_two :: db where "db_two = db_empty\<lparr>merchants := [shop_a, shop_b]\<rparr>"


definition cfg_none :: config where
  "cfg_none = \<lparr>GLOBAL_WABA_TOKEN = '''', GLOBAL_WABA_PHONE_ID = '''',
     WABA_API_BASE = ''https://graph.facebook.com/v20.0'', SALLA_WEBHOOK_SEC = ''change-me''\<rparr>"


definition post_ok :: "http_request \<Rightarrow> exn + int \<times> reply" where
  "post_ok r = Inr (200, JsonReply (JObj [(''messages'', JArr [])]))"




definition no_str_to_int :: "string \<Rightarrow> int option" where
  "no_str_to_int s = None"

definition no_real_text :: "pyfloat \<Rightarrow> string option" where
  "no_real_text f = None"

section \<open>Properties of tenant resolution\<close>

lemma get_store_no_sid_cases:
  "get_store d None = (if length (merchants d) = 1 then Some (hd (merchants d)) else None)"
proof (cases "merchants d")
  case Nil
  then show ?thesis by (simp add: get_store_def)
next
  case (Cons m ms)
  show ?thesis
  proof (cases ms)
    case Nil
    with Cons show ?thesis by (simp add: get_store_def)
  next
    case (Cons m' ms')
    have "length (rev (sort_key m_id (merchants d))) \<ge> 2"
      using \<open>merchants d = m # ms\<close> Cons by simp
    then obtain a b rest where "rev (sort_key m_id (merchants d)) = a # b # rest"
      by (metis One_nat_def Suc_1 Suc_le_length_iff)
    then show ?thesis using \<open>merchants d = m # ms\<close> Cons by (simp add: get_store_def)
  qed
qed

text \<open>
  C1, as stated, fails: an explicit identifier that is the empty string is not looked up by
  exact match. With one tenant in the table, \<^verbatim>\<open>get_store("")\<close> returns that tenant, whose
  store_id is not the empty string.
\<close>

theorem get_store_empty_sid_counterexample:
  "get_store db_one (Some '''') = Some shop_a \<and> store_id shop_a \<noteq> ''''"
  by (simp add: get_store_def db_one_def db_empty_def shop_a_def)

text \<open>
  C1 (amended): for every explicit non-empty identifier the resolver returns a tenant of the
  table whose store_id equals it, or not-found when no tenant has it; with no identifier it
  returns not-found for zero tenants, the tenant for exactly one, not-found for two or more,
  and its answer depends only on the two rows with the largest ids.
\<close>

theorem get_store_resolution:
  "(s \<noteq> [] \<longrightarrow>
      (case get_store d (Some s) of
         Some m \<Rightarrow> m \<in> set (merchants d) \<and> store_id m = s
       | None \<Rightarrow> \<forall>m \<in> set (merchants d). store_id m \<noteq> s)) \<and>
   (merchants d = [] \<longrightarrow> get_store d None = None) \<and>
   (\<forall>m. merchants d = [m] \<longrightarrow> get_store d None = Some m) \<and>
   (2 \<le> length (merchants d) \<longrightarrow> get_store d None = None) \<and>
   (\<forall>d' :: db. take 2 (rev (sort_key m_id (merchants d'))) = take 2 (rev (sort_key m_id (merchants d)))
      \<longrightarrow> get_store d' None = get_store d None)"
proof (intro conjI impI allI)
  assume "s \<noteq> []"
  then have g: "get_store d (Some s) = find (\<lambda>m. store_id m = s) (merchants d)"
    by (simp add: get_store_def)
  show "case get_store d (Some s) of
         Some m \<Rightarrow> m \<in> set (merchants d) \<and> store_id m = s
       | None \<Rightarrow> \<forall>m \<in> set (merchants d). store_id m \<noteq> s"
    unfolding g by (auto split: option.splits simp: find_None_iff find_Some_iff)
next
  assume "merchants d = []" then show "get_store d None = None"
    by (simp add: get_store_no_sid_cases)
next
  fix m assume "merchants d = [m]" then show "get_store d None = Some m"
    by (simp add: get_store_no_sid_cases)
next
  assume "2 \<le> length (merchants d)" then show "get_store d None = None"
    by (simp add: get_store_no_sid_cases)
next
  fix d' :: db assume "take 2 (rev (sort_key m_id (merchants d'))) = take 2 (rev (sort_key m_id (merchants d)))"
  then show "get_store d' None = get_store d None"
    by (simp add: get_store_def)
qed

theorem get_store_resolution_witness:
  "''store-2'' \<noteq> [] \<and> get_store db_two (Some ''store-2'') = Some shop_b \<and>
   get_store db_two (Some ''store-9'') = None \<and>
   merchants db_empty = [] \<and> get_store db_empty None = None \<and>
   merchants db_one = [shop_a] \<and> get_store db_one None = Some shop_a \<and>
   2 \<le> length (merchants db_two) \<and> get_store db_two None = None"
proof -
  have "case get_store db_two (Some ''store-2'') of
          Some m \<Rightarrow> m \<in> set (merchants db_two) \<and> store_id m = ''store-2''
        | None \<Rightarrow> \<forall>m \<in> set (merchants db_two). store_id m \<noteq> ''store-2''"
    by (rule get_store_resolution [THEN conjunct1, rule_format]) simp
  then show ?thesis
    by (simp add: db_one_def db_two_def db_empty_def shop_a_def shop_b_def get_store_def)
qed

text \<open>
  C9: an empty-string identifier resolves exactly as an absent one, in \<^verbatim>\<open>get_store\<close> and in
  \<^verbatim>\<open>GET /api/store\<close>: the unique tenant when exactly one exists, not-found otherwise, looking
  only at the two rows with the largest ids.
\<close>

theorem empty_sid_is_absent:
  "get_store d (Some '''') = get_store d None \<and>
   api_store d (Some '''') = api_store d None \<and>
   (\<forall>m. merchants d = [m] \<longrightarrow> get_store d (Some '''') = Some m) \<and>
   (length (merchants d) \<noteq> 1 \<longrightarrow> get_store d (Some '''') = None) \<and>
   (\<forall>d' :: db. take 2 (rev (sort_key m_id (merchants d'))) = take 2 (rev (sort_key m_id (merchants d)))
      \<longrightarrow> get_store d' (Some '''') = get_store d (Some ''''))"
proof -
  have e: "\<And>x. get_store x (Some '''') = get_store x None"
    by (simp add: get_store_def)
  have p: "\<And>d' :: db. take 2 (rev (sort_key m_id (merchants d'))) = take 2 (rev (sort_key m_id (merchants d)))
      \<Longrightarrow> get_store d' None = get_store d None"
    by (simp add: get_store_def)
  have o: "\<And>m. merchants d = [m] \<Longrightarrow> get_store d None = Some m"
    by (simp add: get_store_no_sid_cases)
  have n: "length (merchants d) \<noteq> 1 \<Longrightarrow> get_store d None = None"
    by (simp add: get_store_no_sid_cases)
  have a: "api_store d (Some []) = api_store d None"
    by (simp add: api_store_def e)
  show ?thesis
    unfolding e by (intro conjI allI impI a refl) (erule o n p)+
qed

theorem empty_sid_is_absent_witness:
  "merchants db_one = [shop_a] \<and> get_store db_one (Some '''') = Some shop_a \<and>
   length (merchants db_two) \<noteq> 1 \<and> get_store db_two (Some '''') = None \<and>
   api_store db_two (Some '''') =
     Inl (HTTPException 404
            (''Store not found. '' @ utf8 [0x627, 0x633, 0x62A, 0x62E, 0x62F, 0x645] @ '' ?sid=...''))"
proof -
  have "get_store db_one (Some []) = Some shop_a"
    by (rule empty_sid_is_absent [THEN conjunct2, THEN conjunct2, THEN conjunct1, rule_format])
      (simp add: db_one_def)
  moreover have "get_store db_two (Some []) = None"
    by (rule empty_sid_is_absent [THEN conjunct2, THEN conjunct2, THEN conjunct2, THEN conjunct1, rule_format])
      (simp add: db_two_def)
  ultimately show ?thesis
    by (simp add: db_one_def db_two_def api_store_def)
qed

section \<open>Properties of the seeder\<close>

lemma insert_or_ignore_template_settings [simp]:
  "store_settings (insert_or_ignore_template sid k disp txt d) = store_settings d"
  by (simp add: insert_or_ignore_template_def Let_def)

lemma insert_or_ignore_template_present:
  "list_ex (\<lambda>r. t_store_id r = sid \<and> tkey r = Some k) (templates d) \<Longrightarrow>
   insert_or_ignore_template sid (Some k) disp txt d =
     d\<lparr>templates_seq := next_id (templates_seq d) (map t_id (templates d))\<rparr>"
  by (simp add: insert_or_ignore_template_def Let_def)

lemma insert_or_ignore_template_extends:
  "\<exists>tp. templates (insert_or_ignore_template sid k disp txt d) = templates d @ tp"
  by (simp add: insert_or_ignore_template_def Let_def)

lemma insert_or_ignore_template_has:
  "list_ex (\<lambda>r. t_store_id r = sid \<and> tkey r = Some k)
     (templates (insert_or_ignore_template sid (Some k) disp txt d))"
  by (simp add: insert_or_ignore_template_def Let_def list_ex_iff)

lemma seed_settings:
  "store_settings (fold (\<lambda>t. insert_or_ignore_template sid (Some (fst t)) (f t) (g t)) L d)
     = store_settings d"
  by (induction L arbitrary: d) simp_all

lemma seed_extends:
  "\<exists>tp. templates (fold (\<lambda>t. insert_or_ignore_template sid (Some (fst t)) (f t) (g t)) L d)
     = templates d @ tp"
proof (induction L arbitrary: d)
  case Nil
  show ?case by simp
next
  case (Cons t L)
  obtain a where a: "templates (insert_or_ignore_template sid (Some (fst t)) (f t) (g t) d) = templates d @ a"
    using insert_or_ignore_template_extends by blast
  obtain b where "templates (fold (\<lambda>t. insert_or_ignore_template sid (Some (fst t)) (f t) (g t)) L
      (insert_or_ignore_template sid (Some (fst t)) (f t) (g t) d))
      = templates (insert_or_ignore_template sid (Some (fst t)) (f t) (g t) d) @ b"
    using Cons.IH by blast
  with a show ?case by simp
qed

lemma seed_present:
  "\<forall>t \<in> set L. list_ex (\<lambda>r. t_store_id r = sid \<and> tkey r = Some (fst t)) (templates d) \<Longrightarrow>
   \<exists>k. fold (\<lambda>t. insert_or_ignore_template sid (Some (fst t)) (f t) (g t)) L d = d\<lparr>templates_seq := k\<rparr>"
proof (induction L arbitrary: d)
  case Nil
  have "d = d\<lparr>templates_seq := templates_seq d\<rparr>" by simp
  then have "\<exists>k. d = d\<lparr>templates_seq := k\<rparr>" by (rule exI)
  then show ?case by simp
next
  case (Cons t L)
  define i where "i = next_id (templates_seq d) (map t_id (templates d))"
  have h: "list_ex (\<lambda>r. t_store_id r = sid \<and> tkey r = Some (fst t)) (templates d)"
    using Cons.prems by simp
  have s: "insert_or_ignore_template sid (Some (fst t)) (f t) (g t) d = d\<lparr>templates_seq := i\<rparr>"
    unfolding i_def using h by (rule insert_or_ignore_template_present)
  have "\<forall>t \<in> set L. list_ex (\<lambda>r. t_store_id r = sid \<and> tkey r = Some (fst t))
      (templates (d\<lparr>templates_seq := i\<rparr>))"
    using Cons.prems by simp
  then obtain k where "fold (\<lambda>t. insert_or_ignore_template sid (Some (fst t)) (f t) (g t)) L
      (d\<lparr>templates_seq := i\<rparr>) = d\<lparr>templates_seq := i\<rparr>\<lparr>templates_seq := k\<rparr>"
    using Cons.IH by blast
  then have "fold (\<lambda>t. insert_or_ignore_template sid (Some (fst t)) (f t) (g t)) (t # L) d
      = d\<lparr>templates_seq := k\<rparr>"
    using s by simp
  then show ?case by (rule exI)
qed

lemma seed_has:
  "\<forall>t \<in> set L. list_ex (\<lambda>r. t_store_id r = sid \<and> tkey r = Some (fst t))
     (templates (fold (\<lambda>t. insert_or_ignore_template sid (Some (fst t)) (f t) (g t)) L d))"
proof (induction L arbitrary: d)
  case Nil
  show ?case by simp
next
  case (Cons t L)
  let ?d1 = "insert_or_ignore_template sid (Some (fst t)) (f t) (g t) d"
  let ?F = "fold (\<lambda>t. insert_or_ignore_template sid (Some (fst t)) (f t) (g t)) L"
  obtain tp where tp: "templates (?F ?d1) = templates ?d1 @ tp"
    using seed_extends by blast
  have "list_ex (\<lambda>r. t_store_id r = sid \<and> tkey r = Some (fst t)) (templates ?d1)"
    by (rule insert_or_ignore_template_has)
  then have "list_ex (\<lambda>r. t_store_id r = sid \<and> tkey r = Some (fst t)) (templates (?F ?d1))"
    unfolding tp by (auto simp: list_ex_iff)
  with Cons.IH [of ?d1] show ?case by simp
qed

lemma find_None_list_ex: "(find P xs = None) = (\<not> list_ex P xs)"
  by (induction xs) auto

lemma settings_phase_has:
  "find (\<lambda>r. ss_store_id r = sid) (store_settings
     (case find (\<lambda>r. ss_store_id r = sid) (store_settings d) of
        None \<Rightarrow> insert_or_ignore_settings sid js ts d | Some row \<Rightarrow> d)) \<noteq> None"
proof (cases "find (\<lambda>r. ss_store_id r = sid) (store_settings d)")
  case None
  then have "\<not> list_ex (\<lambda>r. ss_store_id r = sid) (store_settings d)"
    by (simp add: find_None_list_ex)
  then have "list_ex (\<lambda>r. ss_store_id r = sid)
      (store_settings (insert_or_ignore_settings sid js ts d))"
    by (simp add: insert_or_ignore_settings_def Let_def)
  then show ?thesis
    unfolding None by (simp add: find_None_list_ex)
next
  case (Some row)
  then show ?thesis by simp
qed

lemma settings_phase_extends:
  "\<exists>ss. store_settings
     (case find (\<lambda>r. ss_store_id r = sid) (store_settings d) of
        None \<Rightarrow> insert_or_ignore_settings sid js ts d | Some row \<Rightarrow> d) = store_settings d @ ss"
  by (auto simp: insert_or_ignore_settings_def Let_def split: option.splits)

lemma settings_phase_templates:
  "templates
     (case find (\<lambda>r. ss_store_id r = sid) (store_settings d) of
        None \<Rightarrow> insert_or_ignore_settings sid js ts d | Some row \<Rightarrow> d) = templates d"
  by (auto simp: insert_or_ignore_settings_def Let_def split: option.splits)

text \<open>
  C2: running \<^verbatim>\<open>ensure_defaults\<close> a second time (at any later time) leaves the settings rows
  and the template rows as the first run left them; the second run changes nothing in the
  database but the AUTOINCREMENT counter of \<^verbatim>\<open>templates\<close>, which every ignored insert moves on.
  A run only appends rows to \<^verbatim>\<open>store_settings\<close> and \<^verbatim>\<open>templates\<close>, so no existing row is
  overwritten, and a tenant that already has a settings row keeps the settings table as it
  is.
\<close>

theorem ensure_defaults_idempotent:
  "store_settings (ensure_defaults t2 sid (ensure_defaults t1 sid d))
     = store_settings (ensure_defaults t1 sid d) \<and>
   templates (ensure_defaults t2 sid (ensure_defaults t1 sid d))
     = templates (ensure_defaults t1 sid d) \<and>
   (\<exists>k. ensure_defaults t2 sid (ensure_defaults t1 sid d)
          = (ensure_defaults t1 sid d)\<lparr>templates_seq := k\<rparr>) \<and>
   (\<exists>ss. store_settings (ensure_defaults t1 sid d) = store_settings d @ ss) \<and>
   (\<exists>tp. templates (ensure_defaults t1 sid d) = templates d @ tp) \<and>
   (list_ex (\<lambda>r. ss_store_id r = sid) (store_settings d) \<longrightarrow>
      store_settings (ensure_defaults t1 sid d) = store_settings d)"
proof -
  let ?d' = "ensure_defaults t1 sid d"
  have "find (\<lambda>r. ss_store_id r = sid) (store_settings ?d') \<noteq> None"
    unfolding ensure_defaults_def seed_settings by (rule settings_phase_has)
  then obtain row where row: "find (\<lambda>r. ss_store_id r = sid) (store_settings ?d') = Some row"
    by blast
  have "\<forall>t \<in> set DEFAULT_TEMPLATES.
          list_ex (\<lambda>r. t_store_id r = sid \<and> tkey r = Some (fst t)) (templates ?d')"
    unfolding ensure_defaults_def by (rule seed_has)
  then have "\<exists>k. fold (\<lambda>t. insert_or_ignore_template sid (Some (fst t)) (Some (fst (snd t))) (Some (snd (snd t))))
       DEFAULT_TEMPLATES ?d' = ?d'\<lparr>templates_seq := k\<rparr>"
    by (rule seed_present)
  then obtain k where
    "fold (\<lambda>t. insert_or_ignore_template sid (Some (fst t)) (Some (fst (snd t))) (Some (snd (snd t))))
       DEFAULT_TEMPLATES ?d' = ?d'\<lparr>templates_seq := k\<rparr>"
    by blast
  then have k: "ensure_defaults t2 sid ?d' = ?d'\<lparr>templates_seq := k\<rparr>"
    by (subst ensure_defaults_def) (simp add: row)
  have 1: "store_settings (ensure_defaults t2 sid ?d') = store_settings ?d'"
    unfolding k by simp
  have 2: "templates (ensure_defaults t2 sid ?d') = templates ?d'"
    unfolding k by simp
  have 3: "\<exists>k. ensure_defaults t2 sid ?d' = ?d'\<lparr>templates_seq := k\<rparr>"
    using k by (rule exI)
  have 4: "\<exists>ss. store_settings (ensure_defaults t1 sid d) = store_settings d @ ss"
    unfolding ensure_defaults_def seed_settings by (rule settings_phase_extends)
  have 5: "\<exists>tp. templates (ensure_defaults t1 sid d) = templates d @ tp"
    using seed_extends [of sid "\<lambda>t. Some (fst (snd t))" "\<lambda>t. Some (snd (snd t))" DEFAULT_TEMPLATES
        "case find (\<lambda>r. ss_store_id r = sid) (store_settings d) of
           None \<Rightarrow> insert_or_ignore_settings sid DEFAULT_SETTINGS t1 d | Some row \<Rightarrow> d"]
    unfolding ensure_defaults_def settings_phase_templates .
  have 6: "store_settings (ensure_defaults t1 sid d) = store_settings d"
    if "list_ex (\<lambda>r. ss_store_id r = sid) (store_settings d)"
  proof -
    from that have "find (\<lambda>r. ss_store_id r = sid) (store_settings d) \<noteq> None"
      by (simp add: find_None_list_ex)
    then show ?thesis
      unfolding ensure_defaults_def seed_settings by auto
  qed
  show ?thesis
    using 1 2 3 4 5 6 by (intro conjI impI)
qed

theorem ensure_defaults_idempotent_witness:
  "templates (ensure_defaults 9 ''store-1'' (ensure_defaults 5 ''store-1'' db_one))
     = templates (ensure_defaults 5 ''store-1'' db_one) \<and>
   templates_seq (ensure_defaults 5 ''store-1'' db_one) = 7 \<and>
   templates_seq (ensure_defaults 9 ''store-1'' (ensure_defaults 5 ''store-1'' db_one)) = 14 \<and>
   map tkey (templates (ensure_defaults 5 ''store-1'' db_one)) =
     [Some ''order_created'', Some ''order_paid'', Some ''order_fulfilled'', Some ''out_for_delivery'',
      Some ''delivered'', Some ''order_canceled'', Some ''refund_created''] \<and>
   list_ex (\<lambda>r. ss_store_id r = ''store-1'') (store_settings (ensure_defaults 5 ''store-1'' db_one)) \<and>
   store_settings (ensure_defaults 9 ''store-1'' (ensure_defaults 5 ''store-1'' db_one)) =
     [\<lparr>ss_id = 1, ss_store_id = ''store-1'', settings_json = DEFAULT_SETTINGS, updated_at = 5\<rparr>]"
proof -
  have i: "templates (ensure_defaults 9 ''store-1'' (ensure_defaults 5 ''store-1'' db_one))
      = templates (ensure_defaults 5 ''store-1'' db_one)"
    using ensure_defaults_idempotent [of 9 "''store-1''" 5 db_one]
    by (rule conjunct2 [THEN conjunct1])
  have e: "ensure_defaults 9 ''store-1'' (ensure_defaults 5 ''store-1'' db_one)
      = (ensure_defaults 5 ''store-1'' db_one)\<lparr>templates_seq := 14\<rparr>"
    by (simp add: ensure_defaults_def DEFAULT_TEMPLATES_def insert_or_ignore_template_def
        insert_or_ignore_settings_def db_one_def db_empty_def next_id_def Let_def)
  have s: "templates_seq (ensure_defaults 5 ''store-1'' db_one) = 7"
    by (simp add: ensure_defaults_def DEFAULT_TEMPLATES_def insert_or_ignore_template_def
        insert_or_ignore_settings_def db_one_def db_empty_def next_id_def Let_def)
  have k: "map tkey (templates (ensure_defaults 5 ''store-1'' db_one)) =
     [Some ''order_created'', Some ''order_paid'', Some ''order_fulfilled'', Some ''out_for_delivery'',
      Some ''delivered'', Some ''order_canceled'', Some ''refund_created'']"
    by (simp add: ensure_defaults_def DEFAULT_TEMPLATES_def insert_or_ignore_template_def
        insert_or_ignore_settings_def db_one_def db_empty_def next_id_def Let_def)
  have t: "store_settings (ensure_defaults 5 ''store-1'' db_one) =
     [\<lparr>ss_id = 1, ss_store_id = ''store-1'', settings_json = DEFAULT_SETTINGS, updated_at = 5\<rparr>]"
    by (simp add: ensure_defaults_def DEFAULT_TEMPLATES_def insert_or_ignore_template_def
        insert_or_ignore_settings_def db_one_def db_empty_def next_id_def Let_def seed_settings)
  show ?thesis
    using i s k t by (simp add: e)
qed

section \<open>Properties of the send pipeline\<close>

lemma api_test_send_no_store:
  "get_store d sid = None \<Longrightarrow>
   api_test_send cfg post ts d sid req = (Inl (HTTPException 404 ''Store not found''), d, [])"
  by (simp add: api_test_send_def)

lemma api_test_send_invalid:
  assumes "get_store d sid = Some store"
    and "py_get req ''to_msisdn'' JNull = Inr a" and "py_strip (py_or a (JStr [])) = Inr to_no"
    and "py_get req ''body'' JNull = Inr b" and "py_strip (py_or b (JStr [])) = Inr msg"
    and "to_no = [] \<or> msg = []"
  shows "api_test_send cfg post ts d sid req = (Inl InvalidInput, d, [])"
  using assms by (simp add: api_test_send_def InvalidInput_def)

lemma api_test_send_valid:
  assumes "get_store d sid = Some store"
    and "py_get req ''to_msisdn'' JNull = Inr a" and "py_strip (py_or a (JStr [])) = Inr to_no"
    and "py_get req ''body'' JNull = Inr b" and "py_strip (py_or b (JStr [])) = Inr msg"
    and "to_no \<noteq> []" and "msg \<noteq> []"
  shows "api_test_send cfg post ts d sid req =
     (if column_or (waba_token store) (GLOBAL_WABA_TOKEN cfg) = [] \<or>
         column_or (waba_phone_id store) (GLOBAL_WABA_PHONE_ID cfg) = []
      then (Inl CredentialsMissing, d, [])
      else
        (case post (whatsapp_request cfg (column_or (waba_token store) (GLOBAL_WABA_TOKEN cfg))
                      (column_or (waba_phone_id store) (GLOBAL_WABA_PHONE_ID cfg)) to_no msg) of
           Inl e \<Rightarrow>
             (Inl (Uncaught e), d,
              [whatsapp_request cfg (column_or (waba_token store) (GLOBAL_WABA_TOKEN cfg))
                 (column_or (waba_phone_id store) (GLOBAL_WABA_PHONE_ID cfg)) to_no msg])
         | Inr res \<Rightarrow>
             (case snd res of
                RawReply bs \<Rightarrow>
                  (Inl (Uncaught TypeError), d,
                   [whatsapp_request cfg (column_or (waba_token store) (GLOBAL_WABA_TOKEN cfg))
                      (column_or (waba_phone_id store) (GLOBAL_WABA_PHONE_ID cfg)) to_no msg])
              | JsonReply data \<Rightarrow>
                  if has_surrogate to_no
                  then (Inl (Uncaught UnicodeEncodeError), d,
                        [whatsapp_request cfg (column_or (waba_token store) (GLOBAL_WABA_TOKEN cfg))
                           (column_or (waba_phone_id store) (GLOBAL_WABA_PHONE_ID cfg)) to_no msg])
                  else
                    (Inr (fst res, data),
                     d\<lparr>logs := logs d @
                           [\<lparr>l_id = next_id (logs_seq d) (map l_id (logs d)),
                             l_store_id = store_id store, to_msisdn = to_no, template = ''manual_test'',
                             status = show_int (fst res), error = data, l_created_at = ts\<rparr>],
                       logs_seq := next_id (logs_seq d) (map l_id (logs d))\<rparr>,
                     [whatsapp_request cfg (column_or (waba_token store) (GLOBAL_WABA_TOKEN cfg))
                        (column_or (waba_phone_id store) (GLOBAL_WABA_PHONE_ID cfg)) to_no msg]))))"
  using assms by (simp add: api_test_send_def CredentialsMissing_def Let_def)

lemma api_test_send_no_credentials:
  assumes "get_store d sid = Some store"
    and "column_or (waba_token store) (GLOBAL_WABA_TOKEN cfg) = [] \<or>
         column_or (waba_phone_id store) (GLOBAL_WABA_PHONE_ID cfg) = []"
  shows "\<exists>e. api_test_send cfg post ts d sid req = (Inl e, d, [])"
proof (cases "py_get req ''to_msisdn'' JNull")
  case (Inl e)
  with assms show ?thesis by (simp add: api_test_send_def)
next
  case a: (Inr a)
  show ?thesis
  proof (cases "py_strip (py_or a (JStr []))")
    case (Inl e)
    with assms a show ?thesis by (simp add: api_test_send_def)
  next
    case t: (Inr to_no)
    show ?thesis
    proof (cases "py_get req ''body'' JNull")
      case (Inl e)
      with assms a t show ?thesis by (simp add: api_test_send_def)
    next
      case b: (Inr b)
      show ?thesis
      proof (cases "py_strip (py_or b (JStr []))")
        case (Inl e)
        with assms a t b show ?thesis by (simp add: api_test_send_def)
      next
        case m: (Inr msg)
        show ?thesis
        proof (cases "to_no = [] \<or> msg = []")
          case True
          then show ?thesis
            using api_test_send_invalid [OF assms(1) a t b m] by blast
        next
          case False
          then show ?thesis
            using api_test_send_valid [OF assms(1) a t b m] assms(2) by auto
        qed
      qed
    qed
  qed
qed

lemma column_or_empty:
  "(column_or c g = []) = ((c = None \<or> c = Some []) \<and> g = [])"
  by (auto simp: column_or_def split: option.splits)

text \<open>
  C3, as stated, fails: with no credentials at either level and an empty destination, the
  handler answers \<^verbatim>\<open>400 Missing to_msisdn/body\<close> (InvalidInput), not CredentialsMissing.
\<close>

theorem credentials_missing_counterexample:
  "get_store db_one (Some ''store-1'') = Some shop_a \<and>
   waba_token shop_a = None \<and> waba_phone_id shop_a = None \<and>
   GLOBAL_WABA_TOKEN cfg_none = [] \<and> GLOBAL_WABA_PHONE_ID cfg_none = [] \<and>
   api_test_send cfg_none post_ok 7 db_one (Some ''store-1'')
     (JObj [(''to_msisdn'', JStr ''''), (''body'', JStr ''hello'')])
     = (Inl InvalidInput, db_one, []) \<and>
   InvalidInput \<noteq> CredentialsMissing"
  by (simp add: api_test_send_def get_store_def db_one_def db_empty_def shop_a_def py_or_def
      strip_def py_whitespace_def column_or_def cfg_none_def InvalidInput_def CredentialsMissing_def Let_def)

text \<open>
  C3 (amended): on a resolved tenant for which the token, or the phone identifier, is
  available neither at store level nor process-wide, every ad-hoc send request fails,
  posts nothing to the messaging API and leaves the database (so the delivery log)
  unchanged; the failure is CredentialsMissing whenever the request has a destination and
  a body that are non-empty after stripping.
\<close>

theorem no_credentials_no_send:
  assumes "get_store d sid = Some store"
    and "((waba_token store = None \<or> waba_token store = Some []) \<and> GLOBAL_WABA_TOKEN cfg = []) \<or>
         ((waba_phone_id store = None \<or> waba_phone_id store = Some []) \<and> GLOBAL_WABA_PHONE_ID cfg = [])"
  shows "(\<exists>e. api_test_send cfg post ts d sid req = (Inl e, d, [])) \<and>
         (\<forall>a to_no b msg.
            py_get req ''to_msisdn'' JNull = Inr a \<and> py_strip (py_or a (JStr [])) = Inr to_no \<and>
            py_get req ''body'' JNull = Inr b \<and> py_strip (py_or b (JStr [])) = Inr msg \<and>
            to_no \<noteq> [] \<and> msg \<noteq> []
            \<longrightarrow> api_test_send cfg post ts d sid req = (Inl CredentialsMissing, d, []))"
proof -
  have c: "column_or (waba_token store) (GLOBAL_WABA_TOKEN cfg) = [] \<or>
           column_or (waba_phone_id store) (GLOBAL_WABA_PHONE_ID cfg) = []"
    using assms(2) by (simp add: column_or_empty)
  have "\<exists>e. api_test_send cfg post ts d sid req = (Inl e, d, [])"
    using assms(1) c by (rule api_test_send_no_credentials)
  moreover have "api_test_send cfg post ts d sid req = (Inl CredentialsMissing, d, [])"
    if "py_get req ''to_msisdn'' JNull = Inr a" "py_strip (py_or a (JStr [])) = Inr to_no"
      "py_get req ''body'' JNull = Inr b" "py_strip (py_or b (JStr [])) = Inr msg"
      "to_no \<noteq> []" "msg \<noteq> []" for a to_no b msg
    using api_test_send_valid [OF assms(1) that] c by simp
  ultimately show ?thesis by blast
qed

theorem no_credentials_no_send_witness:
  "get_store db_one (Some ''store-1'') = Some shop_a \<and>
   waba_token shop_a = None \<and> GLOBAL_WABA_TOKEN cfg_none = [] \<and>
   api_test_send cfg_none post_ok 7 db_one (Some ''store-1'')
     (JObj [(''to_msisdn'', JStr ''966500000000''), (''body'', JStr ''hello'')])
     = (Inl CredentialsMissing, db_one, [])"
proof -
  let ?req = "JObj [(''to_msisdn'', JStr ''966500000000''), (''body'', JStr ''hello'')]"
  have s: "get_store db_one (Some ''store-1'') = Some shop_a"
    by code_simp
  have n: "((waba_token shop_a = None \<or> waba_token shop_a = Some []) \<and> GLOBAL_WABA_TOKEN cfg_none = []) \<or>
         ((waba_phone_id shop_a = None \<or> waba_phone_id shop_a = Some []) \<and> GLOBAL_WABA_PHONE_ID cfg_none = [])"
    by (simp add: shop_a_def cfg_none_def)
  have v: "py_get ?req ''to_msisdn'' JNull = Inr (JStr ''966500000000'') \<and>
      py_strip (py_or (JStr ''966500000000'') (JStr [])) = Inr ''966500000000'' \<and>
      py_get ?req ''body'' JNull = Inr (JStr ''hello'') \<and>
      py_strip (py_or (JStr ''hello'') (JStr [])) = Inr ''hello'' \<and>
      ''966500000000'' \<noteq> [] \<and> ''hello'' \<noteq> []"
    by (simp add: py_or_def strip_def py_whitespace_def)
  have "api_test_send cfg_none post_ok 7 db_one (Some ''store-1'') ?req
      = (Inl CredentialsMissing, db_one, [])"
    using no_credentials_no_send [OF s n, of post_ok 7 ?req] v by blast
  then show ?thesis
    using s by (simp add: shop_a_def cfg_none_def)
qed

text \<open>
  C4, as stated, fails: with no credentials at either level and both the destination and
  the body empty, the outcome is not CredentialsMissing.
\<close>

theorem check_order_counterexample:
  "get_store db_one (Some ''store-1'') = Some shop_a \<and>
   waba_token shop_a = None \<and> waba_phone_id shop_a = None \<and>
   GLOBAL_WABA_TOKEN cfg_none = [] \<and> GLOBAL_WABA_PHONE_ID cfg_none = [] \<and>
   fst (api_test_send cfg_none post_ok 7 db_one (Some ''store-1'')
     (JObj [(''to_msisdn'', JStr ''''), (''body'', JStr '''')])) \<noteq> Inl CredentialsMissing"
  by (simp add: api_test_send_def get_store_def db_one_def db_empty_def shop_a_def py_or_def
      strip_def py_whitespace_def column_or_def cfg_none_def InvalidInput_def CredentialsMissing_def Let_def)

text \<open>
  C4 (amended): input validation precedes the credential check. On a resolved tenant
  without credentials at either level, a request whose destination or body is empty after
  stripping fails with InvalidInput, which is a different error from CredentialsMissing.
\<close>

theorem validation_precedes_credentials:
  assumes "get_store d sid = Some store"
    and "((waba_token store = None \<or> waba_token store = Some []) \<and> GLOBAL_WABA_TOKEN cfg = []) \<or>
         ((waba_phone_id store = None \<or> waba_phone_id store = Some []) \<and> GLOBAL_WABA_PHONE_ID cfg = [])"
    and "py_get req ''to_msisdn'' JNull = Inr a" and "py_strip (py_or a (JStr [])) = Inr to_no"
    and "py_get req ''body'' JNull = Inr b" and "py_strip (py_or b (JStr [])) = Inr msg"
    and "to_no = [] \<or> msg = []"
  shows "api_test_send cfg post ts d sid req = (Inl InvalidInput, d, []) \<and>
         InvalidInput \<noteq> CredentialsMissing"
  using api_test_send_invalid [OF assms(1) assms(3-7)]
  by (simp add: InvalidInput_def CredentialsMissing_def)

theorem validation_precedes_credentials_witness:
  "get_store db_one (Some ''store-1'') = Some shop_a \<and>
   waba_token shop_a = None \<and> GLOBAL_WABA_TOKEN cfg_none = [] \<and>
   py_strip (py_or (JStr ''966500000000'') (JStr [])) = Inr ''966500000000'' \<and>
   py_strip (py_or (JStr ''  '') (JStr [])) = Inr [] \<and>
   api_test_send cfg_none post_ok 7 db_one (Some ''store-1'')
     (JObj [(''to_msisdn'', JStr ''966500000000''), (''body'', JStr ''  '')])
     = (Inl InvalidInput, db_one, [])"
proof -
  have s: "get_store db_one (Some ''store-1'') = Some shop_a"
    by code_simp
  have n: "((waba_token shop_a = None \<or> waba_token shop_a = Some []) \<and> GLOBAL_WABA_TOKEN cfg_none = []) \<or>
         ((waba_phone_id shop_a = None \<or> waba_phone_id shop_a = Some []) \<and> GLOBAL_WABA_PHONE_ID cfg_none = [])"
    by (simp add: shop_a_def cfg_none_def)
  have a: "py_get (JObj [(''to_msisdn'', JStr ''966500000000''), (''body'', JStr ''  '')]) ''to_msisdn'' JNull
      = Inr (JStr ''966500000000'')"
    by simp
  have b: "py_get (JObj [(''to_msisdn'', JStr ''966500000000''), (''body'', JStr ''  '')]) ''body'' JNull
      = Inr (JStr ''  '')"
    by simp
  have t: "py_strip (py_or (JStr ''966500000000'') (JStr [])) = Inr ''966500000000''"
    by (simp add: py_or_def strip_def py_whitespace_def)
  have m: "py_strip (py_or (JStr ''  '') (JStr [])) = Inr []"
    by (simp add: py_or_def strip_def py_whitespace_def)
  have e: "''966500000000'' = [] \<or> ([] :: string) = []"
    by simp
  have "api_test_send cfg_none post_ok 7 db_one (Some ''store-1'')
     (JObj [(''to_msisdn'', JStr ''966500000000''), (''body'', JStr ''  '')])
     = (Inl InvalidInput, db_one, [])"
    using validation_precedes_credentials [OF s n a t b m e, of post_ok 7] by (rule conjunct1)
  moreover have "waba_token shop_a = None \<and> GLOBAL_WABA_TOKEN cfg_none = []"
    by (simp add: shop_a_def cfg_none_def)
  ultimately show ?thesis
    using s t m by blast
qed






lemma get_store_store_id:
  "get_store d sid = Some store \<Longrightarrow> store \<in> set (merchants d)"
proof -
  assume a: "get_store d sid = Some store"
  have peek: "\<And>xs :: merchant list. (case take 2 xs of [] \<Rightarrow> None | [m] \<Rightarrow> Some m | _ \<Rightarrow> None) = Some store
      \<Longrightarrow> store \<in> set xs"
  proof -
    fix xs :: "merchant list"
    assume "(case take 2 xs of [] \<Rightarrow> None | [m] \<Rightarrow> Some m | _ \<Rightarrow> None) = Some store"
    then have "take 2 xs = [store]"
      by (auto split: list.splits)
    then have "store \<in> set (take 2 xs)" by simp
    then show "store \<in> set xs" by (rule in_set_takeD)
  qed
  show ?thesis
  proof (cases "sid = None \<or> sid = Some []")
    case True
    then have "(case take 2 (rev (sort_key m_id (merchants d))) of [] \<Rightarrow> None | [m] \<Rightarrow> Some m | _ \<Rightarrow> None) = Some store"
      using a by (auto simp: get_store_def)
    then have "store \<in> set (rev (sort_key m_id (merchants d)))" by (rule peek)
    then show ?thesis by simp
  next
    case False
    then obtain s where "sid = Some s" "s \<noteq> []" by auto
    then have "find (\<lambda>m. store_id m = s) (merchants d) = Some store"
      using a by (simp add: get_store_def)
    then show ?thesis by (auto simp: find_Some_iff)
  qed
qed






section \<open>Properties of the settings save\<close>

lemma dumps_settings:
  "dumps_has_surrogate (JObj [(''enabled'', en), (''rate_limit_mps'', JInt r)]) = dumps_has_surrogate en"
  by simp

lemma default_enabled_no_surrogate: "\<not> dumps_has_surrogate DEFAULT_SETTINGS_enabled"
  by (simp add: DEFAULT_SETTINGS_enabled_def)

lemma api_save_settings_obj:
  assumes "get_store d sid = Some store"
  shows "api_save_settings str_to_int ts d sid (JObj kvs) =
     (case py_int str_to_int (py_or (case map_of kvs ''rate_limit_mps'' of None \<Rightarrow> JNull | Some v \<Rightarrow> v) (JInt 60)) of
        Inl e \<Rightarrow> (Inl (Uncaught e), d)
      | Inr r \<Rightarrow>
          if dumps_has_surrogate
               (py_or (case map_of kvs ''enabled'' of None \<Rightarrow> JNull | Some v \<Rightarrow> v) DEFAULT_SETTINGS_enabled)
          then (Inl (Uncaught UnicodeEncodeError), d)
          else
            (Inr ok_response,
             insert_or_replace_settings (store_id store)
               (JObj [(''enabled'', py_or (case map_of kvs ''enabled'' of None \<Rightarrow> JNull | Some v \<Rightarrow> v) DEFAULT_SETTINGS_enabled),
                      (''rate_limit_mps'', JInt r)]) ts d))"
proof (cases "py_int str_to_int
    (py_or (case map_of kvs ''rate_limit_mps'' of None \<Rightarrow> JNull | Some v \<Rightarrow> v) (JInt 60))")
  case (Inl e)
  with assms show ?thesis by (simp add: api_save_settings_def)
next
  case (Inr r)
  with assms show ?thesis by (simp add: api_save_settings_def)
qed

lemma insert_or_replace_settings_rows:
  "store_settings (insert_or_replace_settings sid js ts d) =
     filter (\<lambda>x. ss_store_id x \<noteq> sid) (store_settings d) @
       [\<lparr>ss_id = next_id (settings_seq d) (map ss_id (store_settings d)), ss_store_id = sid,
         settings_json = js, updated_at = ts\<rparr>]"
  by (simp add: insert_or_replace_settings_def Let_def)

lemma insert_or_replace_settings_frame:
  "merchants (insert_or_replace_settings sid js ts d) = merchants d \<and>
   templates (insert_or_replace_settings sid js ts d) = templates d \<and>
   events (insert_or_replace_settings sid js ts d) = events d \<and>
   logs (insert_or_replace_settings sid js ts d) = logs d"
  by (simp add: insert_or_replace_settings_def Let_def)

text \<open>
  C6, as stated, fails: a supplied rate limit is not always stored as given. A request that
  supplies \<^verbatim>\<open>rate_limit_mps = 0\<close> stores 60.
\<close>

theorem settings_rate_zero_counterexample:
  "map_of [(''enabled'', JObj [(''order_paid'', JBool False)]), (''rate_limit_mps'', JInt 0)]
     ''rate_limit_mps'' = Some (JInt 0) \<and>
   map settings_json (store_settings (snd (api_save_settings no_str_to_int 9 db_one (Some ''store-1'')
     (JObj [(''enabled'', JObj [(''order_paid'', JBool False)]), (''rate_limit_mps'', JInt 0)]))))
   = [JObj [(''enabled'', JObj [(''order_paid'', JBool False)]), (''rate_limit_mps'', JInt 60)]]"
  by (simp add: api_save_settings_def get_store_def db_one_def db_empty_def shop_a_def py_or_def
      insert_or_replace_settings_def Let_def)

text \<open>
  C6 (amended): a settings save on a resolved tenant whose body is a JSON object goes one of
  three ways. If \<^verbatim>\<open>int()\<close> rejects the rate limit, the save fails and stores nothing. The
  enabled-map to store is the system default (all seven event kinds true) when the
  submitted one is absent or falsy (so when it is empty), and the submitted value when that
  is truthy; if it holds a lone surrogate, which SQLite cannot encode, the save fails and
  stores nothing. Otherwise the save leaves exactly one settings row for the tenant, the
  new one, and the rows of the other tenants as they were. The stored rate limit is 60 when
  the submitted one is absent or falsy (null, 0, 0.0, false, empty), a submitted non-zero
  integer as given, and a submitted non-zero float cut to its integer part.
\<close>

theorem save_settings_coercion:
  assumes "get_store d sid = Some store"
  shows
    "(case py_int str_to_int
             (py_or (case map_of kvs ''rate_limit_mps'' of None \<Rightarrow> JNull | Some v \<Rightarrow> v) (JInt 60)) of
        Inl e \<Rightarrow> api_save_settings str_to_int ts d sid (JObj kvs) = (Inl (Uncaught e), d)
      | Inr r \<Rightarrow>
          (\<exists>en.
             (dumps_has_surrogate en \<longrightarrow>
                api_save_settings str_to_int ts d sid (JObj kvs) = (Inl (Uncaught UnicodeEncodeError), d)) \<and>
             (\<not> dumps_has_surrogate en \<longrightarrow>
                (\<exists>d'.
                   api_save_settings str_to_int ts d sid (JObj kvs) = (Inr ok_response, d') \<and>
                   filter (\<lambda>x. ss_store_id x = store_id store) (store_settings d') =
                     [\<lparr>ss_id = next_id (settings_seq d) (map ss_id (store_settings d)),
                       ss_store_id = store_id store,
                       settings_json = JObj [(''enabled'', en), (''rate_limit_mps'', JInt r)],
                       updated_at = ts\<rparr>] \<and>
                   filter (\<lambda>x. ss_store_id x \<noteq> store_id store) (store_settings d') =
                     filter (\<lambda>x. ss_store_id x \<noteq> store_id store) (store_settings d))) \<and>
             (map_of kvs ''enabled'' = None \<or> map_of kvs ''enabled'' = Some (JObj [])
                \<longrightarrow> en = DEFAULT_SETTINGS_enabled) \<and>
             (\<forall>v. map_of kvs ''enabled'' = Some v \<and> \<not> truthy v \<longrightarrow> en = DEFAULT_SETTINGS_enabled) \<and>
             (\<forall>v. map_of kvs ''enabled'' = Some v \<and> truthy v \<longrightarrow> en = v) \<and>
             (map_of kvs ''rate_limit_mps'' = None \<longrightarrow> r = 60) \<and>
             (\<forall>v. map_of kvs ''rate_limit_mps'' = Some v \<and> \<not> truthy v \<longrightarrow> r = 60) \<and>
             (\<forall>i. map_of kvs ''rate_limit_mps'' = Some (JInt i) \<and> i \<noteq> 0 \<longrightarrow> r = i) \<and>
             (\<forall>neg m e. map_of kvs ''rate_limit_mps'' = Some (JFloat (Finite neg m e)) \<and> m \<noteq> 0
                \<longrightarrow> r = float_trunc neg m e))) \<and>
     DEFAULT_SETTINGS_enabled =
       JObj (map (\<lambda>k. (k, JBool True))
         [''order_created'', ''order_paid'', ''order_fulfilled'', ''out_for_delivery'',
          ''delivered'', ''order_canceled'', ''refund_created'']) \<and>
     \<not> dumps_has_surrogate DEFAULT_SETTINGS_enabled"
proof (intro conjI)
  let ?rl = "case map_of kvs ''rate_limit_mps'' of None \<Rightarrow> JNull | Some v \<Rightarrow> v"
  let ?en = "py_or (case map_of kvs ''enabled'' of None \<Rightarrow> JNull | Some v \<Rightarrow> v) DEFAULT_SETTINGS_enabled"
  show "case py_int str_to_int (py_or ?rl (JInt 60)) of
        Inl e \<Rightarrow> api_save_settings str_to_int ts d sid (JObj kvs) = (Inl (Uncaught e), d)
      | Inr r \<Rightarrow>
          (\<exists>en.
             (dumps_has_surrogate en \<longrightarrow>
                api_save_settings str_to_int ts d sid (JObj kvs) = (Inl (Uncaught UnicodeEncodeError), d)) \<and>
             (\<not> dumps_has_surrogate en \<longrightarrow>
                (\<exists>d'.
                   api_save_settings str_to_int ts d sid (JObj kvs) = (Inr ok_response, d') \<and>
                   filter (\<lambda>x. ss_store_id x = store_id store) (store_settings d') =
                     [\<lparr>ss_id = next_id (settings_seq d) (map ss_id (store_settings d)),
                       ss_store_id = store_id store,
                       settings_json = JObj [(''enabled'', en), (''rate_limit_mps'', JInt r)],
                       updated_at = ts\<rparr>] \<and>
                   filter (\<lambda>x. ss_store_id x \<noteq> store_id store) (store_settings d') =
                     filter (\<lambda>x. ss_store_id x \<noteq> store_id store) (store_settings d))) \<and>
             (map_of kvs ''enabled'' = None \<or> map_of kvs ''enabled'' = Some (JObj [])
                \<longrightarrow> en = DEFAULT_SETTINGS_enabled) \<and>
             (\<forall>v. map_of kvs ''enabled'' = Some v \<and> \<not> truthy v \<longrightarrow> en = DEFAULT_SETTINGS_enabled) \<and>
             (\<forall>v. map_of kvs ''enabled'' = Some v \<and> truthy v \<longrightarrow> en = v) \<and>
             (map_of kvs ''rate_limit_mps'' = None \<longrightarrow> r = 60) \<and>
             (\<forall>v. map_of kvs ''rate_limit_mps'' = Some v \<and> \<not> truthy v \<longrightarrow> r = 60) \<and>
             (\<forall>i. map_of kvs ''rate_limit_mps'' = Some (JInt i) \<and> i \<noteq> 0 \<longrightarrow> r = i) \<and>
             (\<forall>neg m e. map_of kvs ''rate_limit_mps'' = Some (JFloat (Finite neg m e)) \<and> m \<noteq> 0
                \<longrightarrow> r = float_trunc neg m e))"
  proof (cases "py_int str_to_int (py_or ?rl (JInt 60))")
    case (Inl e)
    then show ?thesis
      by (simp add: api_save_settings_obj [OF assms])
  next
    case (Inr r)
    let ?d' = "insert_or_replace_settings (store_id store)
        (JObj [(''enabled'', ?en), (''rate_limit_mps'', JInt r)]) ts d"
    have 0: "dumps_has_surrogate ?en \<longrightarrow>
        api_save_settings str_to_int ts d sid (JObj kvs) = (Inl (Uncaught UnicodeEncodeError), d)"
      by (simp add: api_save_settings_obj [OF assms] Inr)
    have 1: "api_save_settings str_to_int ts d sid (JObj kvs) = (Inr ok_response, ?d')"
      if "\<not> dumps_has_surrogate ?en"
      using that by (simp add: api_save_settings_obj [OF assms] Inr)
    have 2: "filter (\<lambda>x. ss_store_id x = store_id store) (store_settings ?d') =
               [\<lparr>ss_id = next_id (settings_seq d) (map ss_id (store_settings d)),
                 ss_store_id = store_id store,
                 settings_json = JObj [(''enabled'', ?en), (''rate_limit_mps'', JInt r)],
                 updated_at = ts\<rparr>]"
      by (simp add: insert_or_replace_settings_rows)
    have 3: "filter (\<lambda>x. ss_store_id x \<noteq> store_id store) (store_settings ?d') =
               filter (\<lambda>x. ss_store_id x \<noteq> store_id store) (store_settings d)"
      by (simp add: insert_or_replace_settings_rows)
    have s: "\<not> dumps_has_surrogate ?en \<longrightarrow>
        (\<exists>d'.
           api_save_settings str_to_int ts d sid (JObj kvs) = (Inr ok_response, d') \<and>
           filter (\<lambda>x. ss_store_id x = store_id store) (store_settings d') =
             [\<lparr>ss_id = next_id (settings_seq d) (map ss_id (store_settings d)),
               ss_store_id = store_id store,
               settings_json = JObj [(''enabled'', ?en), (''rate_limit_mps'', JInt r)],
               updated_at = ts\<rparr>] \<and>
           filter (\<lambda>x. ss_store_id x \<noteq> store_id store) (store_settings d') =
             filter (\<lambda>x. ss_store_id x \<noteq> store_id store) (store_settings d))"
    proof
      assume n: "\<not> dumps_has_surrogate ?en"
      show "\<exists>d'.
           api_save_settings str_to_int ts d sid (JObj kvs) = (Inr ok_response, d') \<and>
           filter (\<lambda>x. ss_store_id x = store_id store) (store_settings d') =
             [\<lparr>ss_id = next_id (settings_seq d) (map ss_id (store_settings d)),
               ss_store_id = store_id store,
               settings_json = JObj [(''enabled'', ?en), (''rate_limit_mps'', JInt r)],
               updated_at = ts\<rparr>] \<and>
           filter (\<lambda>x. ss_store_id x \<noteq> store_id store) (store_settings d') =
             filter (\<lambda>x. ss_store_id x \<noteq> store_id store) (store_settings d)"
        by (rule exI [of _ ?d']) (intro conjI 1 [OF n] 2 3)
    qed
    have 4: "map_of kvs ''enabled'' = None \<or> map_of kvs ''enabled'' = Some (JObj [])
                \<longrightarrow> ?en = DEFAULT_SETTINGS_enabled"
      by (auto simp: py_or_def)
    have 40: "\<forall>v. map_of kvs ''enabled'' = Some v \<and> \<not> truthy v \<longrightarrow> ?en = DEFAULT_SETTINGS_enabled"
      by (auto simp: py_or_def)
    have 5: "\<forall>v. map_of kvs ''enabled'' = Some v \<and> truthy v \<longrightarrow> ?en = v"
      by (auto simp: py_or_def)
    have 6: "map_of kvs ''rate_limit_mps'' = None \<longrightarrow> r = 60"
      using Inr by (auto simp: py_or_def)
    have 7: "\<forall>v. map_of kvs ''rate_limit_mps'' = Some v \<and> \<not> truthy v \<longrightarrow> r = 60"
      using Inr by (auto simp: py_or_def)
    have 8: "\<forall>i. map_of kvs ''rate_limit_mps'' = Some (JInt i) \<and> i \<noteq> 0 \<longrightarrow> r = i"
      using Inr by (auto simp: py_or_def)
    have 9: "\<forall>neg m e. map_of kvs ''rate_limit_mps'' = Some (JFloat (Finite neg m e)) \<and> m \<noteq> 0
                \<longrightarrow> r = float_trunc neg m e"
      using Inr by (auto simp: py_or_def)
    show ?thesis
      unfolding Inr sum.case
      by (rule exI [of _ ?en]) (intro conjI 0 s 4 40 5 6 7 8 9)
  qed
next
  show "DEFAULT_SETTINGS_enabled =
       JObj (map (\<lambda>k. (k, JBool True))
         [''order_created'', ''order_paid'', ''order_fulfilled'', ''out_for_delivery'',
          ''delivered'', ''order_canceled'', ''refund_created''])"
    by (simp add: DEFAULT_SETTINGS_enabled_def)
next
  show "\<not> dumps_has_surrogate DEFAULT_SETTINGS_enabled"
    by (rule default_enabled_no_surrogate)
qed

theorem save_settings_coercion_witness:
  "get_store db_one (Some ''store-1'') = Some shop_a \<and>
   map_of [(''rate_limit_mps'', JInt 30)] ''enabled'' = None \<and>
   map_of [(''rate_limit_mps'', JInt 30)] ''rate_limit_mps'' = Some (JInt 30) \<and> (30 :: int) \<noteq> 0 \<and>
   (\<exists>d'. api_save_settings no_str_to_int 9 db_one (Some ''store-1'') (JObj [(''rate_limit_mps'', JInt 30)])
           = (Inr ok_response, d') \<and>
         filter (\<lambda>x. ss_store_id x = ''store-1'') (store_settings d') =
           [\<lparr>ss_id = 1, ss_store_id = ''store-1'',
             settings_json = JObj [(''enabled'', DEFAULT_SETTINGS_enabled), (''rate_limit_mps'', JInt 30)],
             updated_at = 9\<rparr>]) \<and>
   map_of [(''enabled'', JObj []), (''rate_limit_mps'', JFloat (Finite False 5 (- 1)))] ''enabled''
     = Some (JObj []) \<and>
   float_trunc False 5 (- 1) = 2 \<and>
   (\<exists>d'. api_save_settings no_str_to_int 9 db_one (Some ''store-1'')
           (JObj [(''enabled'', JObj []), (''rate_limit_mps'', JFloat (Finite False 5 (- 1)))])
           = (Inr ok_response, d') \<and>
         filter (\<lambda>x. ss_store_id x = ''store-1'') (store_settings d') =
           [\<lparr>ss_id = 1, ss_store_id = ''store-1'',
             settings_json = JObj [(''enabled'', DEFAULT_SETTINGS_enabled), (''rate_limit_mps'', JInt 2)],
             updated_at = 9\<rparr>]) \<and>
   dumps_has_surrogate (JObj [(''order_paid'', JStr [CHR 0xED, CHR 0xA0, CHR 0xBD])]) \<and>
   api_save_settings no_str_to_int 9 db_one (Some ''store-1'')
     (JObj [(''enabled'', JObj [(''order_paid'', JStr [CHR 0xED, CHR 0xA0, CHR 0xBD])])])
     = (Inl (Uncaught UnicodeEncodeError), db_one)"
proof -
  let ?kvs = "[(''rate_limit_mps'', JInt 30)]"
  have s: "get_store db_one (Some ''store-1'') = Some shop_a"
    by code_simp
  have k: "map_of ?kvs ''enabled'' = None" "map_of ?kvs ''rate_limit_mps'' = Some (JInt 30)"
    "(30 :: int) \<noteq> 0"
    by simp_all
  have p: "py_int no_str_to_int
      (py_or (case map_of ?kvs ''rate_limit_mps'' of None \<Rightarrow> JNull | Some v \<Rightarrow> v) (JInt 60)) = Inr 30"
    by (simp add: py_or_def)
  have i: "next_id (settings_seq db_one) (map ss_id (store_settings db_one)) = 1"
    "store_id shop_a = ''store-1''"
    by (simp_all add: next_id_def db_one_def db_empty_def shop_a_def)
  have n: "\<not> dumps_has_surrogate DEFAULT_SETTINGS_enabled"
    using save_settings_coercion [OF s, where str_to_int = no_str_to_int and kvs = ?kvs and ts = 9]
    by (rule conjunct2 [THEN conjunct2])
  note F = save_settings_coercion [OF s, where str_to_int = no_str_to_int and kvs = ?kvs and ts = 9,
        THEN conjunct1, unfolded p sum.case i]
  from F obtain en where
    r: "\<not> dumps_has_surrogate en \<longrightarrow>
        (\<exists>d'. api_save_settings no_str_to_int 9 db_one (Some ''store-1'') (JObj ?kvs) = (Inr ok_response, d') \<and>
           filter (\<lambda>x. ss_store_id x = ''store-1'') (store_settings d') =
           [\<lparr>ss_id = 1, ss_store_id = ''store-1'',
             settings_json = JObj [(''enabled'', en), (''rate_limit_mps'', JInt 30)], updated_at = 9\<rparr>] \<and>
           filter (\<lambda>x. ss_store_id x \<noteq> ''store-1'') (store_settings d') =
             filter (\<lambda>x. ss_store_id x \<noteq> ''store-1'') (store_settings db_one))"
    and e: "map_of ?kvs ''enabled'' = None \<or> map_of ?kvs ''enabled'' = Some (JObj [])
                \<longrightarrow> en = DEFAULT_SETTINGS_enabled"
    by (elim exE conjE)
  have "en = DEFAULT_SETTINGS_enabled"
    using e by simp
  with r n obtain d1 where
    "api_save_settings no_str_to_int 9 db_one (Some ''store-1'') (JObj ?kvs) = (Inr ok_response, d1)"
    "filter (\<lambda>x. ss_store_id x = ''store-1'') (store_settings d1) =
           [\<lparr>ss_id = 1, ss_store_id = ''store-1'',
             settings_json = JObj [(''enabled'', DEFAULT_SETTINGS_enabled), (''rate_limit_mps'', JInt 30)],
             updated_at = 9\<rparr>]"
    by (elim impE exE conjE) simp_all
  then have first: "\<exists>d'. api_save_settings no_str_to_int 9 db_one (Some ''store-1'') (JObj ?kvs)
           = (Inr ok_response, d') \<and>
         filter (\<lambda>x. ss_store_id x = ''store-1'') (store_settings d') =
           [\<lparr>ss_id = 1, ss_store_id = ''store-1'',
             settings_json = JObj [(''enabled'', DEFAULT_SETTINGS_enabled), (''rate_limit_mps'', JInt 30)],
             updated_at = 9\<rparr>]"
    by (intro exI conjI)
  let ?kvs2 = "[(''enabled'', JObj []), (''rate_limit_mps'', JFloat (Finite False 5 (- 1)))]"
  have k2: "map_of ?kvs2 ''enabled'' = Some (JObj [])" "float_trunc False 5 (- 1) = 2"
    by (simp_all add: float_trunc_def)
  have p2: "py_int no_str_to_int
      (py_or (case map_of ?kvs2 ''rate_limit_mps'' of None \<Rightarrow> JNull | Some v \<Rightarrow> v) (JInt 60)) = Inr 2"
    by (simp add: py_or_def float_trunc_def)
  note F2 = save_settings_coercion [OF s, where str_to_int = no_str_to_int and kvs = ?kvs2 and ts = 9,
        THEN conjunct1, unfolded p2 sum.case i]
  from F2 obtain en2 where
    r2: "\<not> dumps_has_surrogate en2 \<longrightarrow>
        (\<exists>d'. api_save_settings no_str_to_int 9 db_one (Some ''store-1'') (JObj ?kvs2) = (Inr ok_response, d') \<and>
           filter (\<lambda>x. ss_store_id x = ''store-1'') (store_settings d') =
           [\<lparr>ss_id = 1, ss_store_id = ''store-1'',
             settings_json = JObj [(''enabled'', en2), (''rate_limit_mps'', JInt 2)], updated_at = 9\<rparr>] \<and>
           filter (\<lambda>x. ss_store_id x \<noteq> ''store-1'') (store_settings d') =
             filter (\<lambda>x. ss_store_id x \<noteq> ''store-1'') (store_settings db_one))"
    and e2: "map_of ?kvs2 ''enabled'' = None \<or> map_of ?kvs2 ''enabled'' = Some (JObj [])
                \<longrightarrow> en2 = DEFAULT_SETTINGS_enabled"
    by (elim exE conjE)
  have "en2 = DEFAULT_SETTINGS_enabled"
    using e2 by simp
  with r2 n obtain d2 where
    "api_save_settings no_str_to_int 9 db_one (Some ''store-1'') (JObj ?kvs2) = (Inr ok_response, d2)"
    "filter (\<lambda>x. ss_store_id x = ''store-1'') (store_settings d2) =
           [\<lparr>ss_id = 1, ss_store_id = ''store-1'',
             settings_json = JObj [(''enabled'', DEFAULT_SETTINGS_enabled), (''rate_limit_mps'', JInt 2)],
             updated_at = 9\<rparr>]"
    by (elim impE exE conjE) simp_all
  then have second: "\<exists>d'. api_save_settings no_str_to_int 9 db_one (Some ''store-1'') (JObj ?kvs2)
           = (Inr ok_response, d') \<and>
         filter (\<lambda>x. ss_store_id x = ''store-1'') (store_settings d') =
           [\<lparr>ss_id = 1, ss_store_id = ''store-1'',
             settings_json = JObj [(''enabled'', DEFAULT_SETTINGS_enabled), (''rate_limit_mps'', JInt 2)],
             updated_at = 9\<rparr>]"
    by (intro exI conjI)
  let ?sur = "JObj [(''order_paid'', JStr [CHR 0xED, CHR 0xA0, CHR 0xBD])]"
  let ?kvs3 = "[(''enabled'', ?sur)]"
  have h3: "dumps_has_surrogate ?sur"
    by (simp add: surrogate_seconds_def)
  have p3: "py_int no_str_to_int
      (py_or (case map_of ?kvs3 ''rate_limit_mps'' of None \<Rightarrow> JNull | Some v \<Rightarrow> v) (JInt 60)) = Inr 60"
    by (simp add: py_or_def)
  note F3 = save_settings_coercion [OF s, where str_to_int = no_str_to_int and kvs = ?kvs3 and ts = 9,
        THEN conjunct1, unfolded p3 sum.case i]
  from F3 obtain en3 where
    r3: "dumps_has_surrogate en3 \<longrightarrow>
        api_save_settings no_str_to_int 9 db_one (Some ''store-1'') (JObj ?kvs3)
          = (Inl (Uncaught UnicodeEncodeError), db_one)"
    and e3: "\<forall>v. map_of ?kvs3 ''enabled'' = Some v \<and> truthy v \<longrightarrow> en3 = v"
    by (elim exE conjE)
  have "en3 = ?sur"
    using e3 by simp
  with r3 h3 have third: "api_save_settings no_str_to_int 9 db_one (Some ''store-1'') (JObj ?kvs3)
          = (Inl (Uncaught UnicodeEncodeError), db_one)"
    by simp
  show ?thesis
    by (intro conjI s k first k2 second h3 third)
qed

section \<open>Properties of the webhook\<close>

lemma webhook_obj:
  assumes "SALLA_WEBHOOK_SEC cfg = [] \<or> sig_ok"
    and "to_text real_text (case map_of kvs ''store_id'' of None \<Rightarrow> JStr ''unknown'' | Some v \<Rightarrow> v) = Inr st"
    and "to_text real_text
           (if truthy (case map_of kvs ''event'' of None \<Rightarrow> JNull | Some v \<Rightarrow> v)
            then (case map_of kvs ''event'' of None \<Rightarrow> JNull | Some v \<Rightarrow> v)
            else (case map_of kvs ''type'' of None \<Rightarrow> JStr ''unknown'' | Some v \<Rightarrow> v)) = Inr et"
  shows "webhook real_text cfg sig_ok ts d (JObj kvs) =
     (if dumps_has_surrogate (JObj kvs) then (Inl (Uncaught UnicodeEncodeError), d)
      else
        (Inr ok_response,
         d\<lparr>events := events d @
               [\<lparr>e_id = next_id (events_seq d) (map e_id (events d)), e_store_id = st,
                 event_type = et, payload = JObj kvs, e_created_at = ts\<rparr>],
           events_seq := next_id (events_seq d) (map e_id (events d))\<rparr>))"
proof (cases "truthy (case map_of kvs ''event'' of None \<Rightarrow> JNull | Some v \<Rightarrow> v)")
  case True
  with assms show ?thesis
    by (auto simp: webhook_def simp del: dumps_has_surrogate.simps)
next
  case False
  with assms show ?thesis
    by (auto simp: webhook_def simp del: dumps_has_surrogate.simps)
qed

lemma webhook_not_object:
  assumes "SALLA_WEBHOOK_SEC cfg = [] \<or> sig_ok" and "\<And>kvs. p \<noteq> JObj kvs"
  shows "webhook real_text cfg sig_ok ts d p = (Inl (Uncaught AttributeError), d)"
  using assms by (cases p) (auto simp: webhook_def)

text \<open>
  C8, as stated, fails: a present \<^verbatim>\<open>event\<close> field does not always win. With
  \<^verbatim>\<open>event = ""\<close> and \<^verbatim>\<open>type = "order.created"\<close> the entry's event type is taken from \<^verbatim>\<open>type\<close>.
\<close>

theorem webhook_present_event_counterexample:
  "map_of [(''event'', JStr ''''), (''type'', JStr ''order.created''), (''store_id'', JStr ''store-1'')]
     ''event'' = Some (JStr '''') \<and>
   map event_type (events (snd (webhook no_real_text cfg_none True 3 db_one
     (JObj [(''event'', JStr ''''), (''type'', JStr ''order.created''), (''store_id'', JStr ''store-1'')]))))
   = [Some ''order.created''] \<and>
   Some ''order.created'' \<noteq> Some ''''"
  by (simp add: webhook_def cfg_none_def db_one_def db_empty_def next_id_def)

text \<open>
  C8 (amended): for a signature-verified payload that is a JSON object whose selected
  event type and store_id can be bound to a TEXT column and that holds no lone surrogate,
  exactly one Event Log entry is appended and nothing else changes. Its event type is
  \<^verbatim>\<open>event\<close> when that is present and truthy, else \<^verbatim>\<open>type\<close> when present, else "unknown"; its
  store_id is the payload's, or "unknown" when absent; its payload column is the
  serialisation of the whole parsed payload. With a lone surrogate anywhere in the payload
  the serialisation cannot be bound, and nothing is recorded.
\<close>

theorem webhook_records_event:
  assumes "SALLA_WEBHOOK_SEC cfg = [] \<or> sig_ok"
    and "to_text real_text (case map_of kvs ''store_id'' of None \<Rightarrow> JStr ''unknown'' | Some v \<Rightarrow> v) = Inr st"
    and "to_text real_text
           (if truthy (case map_of kvs ''event'' of None \<Rightarrow> JNull | Some v \<Rightarrow> v)
            then (case map_of kvs ''event'' of None \<Rightarrow> JNull | Some v \<Rightarrow> v)
            else (case map_of kvs ''type'' of None \<Rightarrow> JStr ''unknown'' | Some v \<Rightarrow> v)) = Inr et"
  shows
    "(\<not> dumps_has_surrogate (JObj kvs) \<longrightarrow>
        webhook real_text cfg sig_ok ts d (JObj kvs) =
          (Inr ok_response,
           d\<lparr>events := events d @
                 [\<lparr>e_id = next_id (events_seq d) (map e_id (events d)), e_store_id = st,
                   event_type = et, payload = JObj kvs, e_created_at = ts\<rparr>],
             events_seq := next_id (events_seq d) (map e_id (events d))\<rparr>)) \<and>
     (dumps_has_surrogate (JObj kvs) \<longrightarrow>
        webhook real_text cfg sig_ok ts d (JObj kvs) = (Inl (Uncaught UnicodeEncodeError), d)) \<and>
     (\<forall>e. map_of kvs ''event'' = Some (JStr e) \<and> e \<noteq> [] \<longrightarrow> et = Some e) \<and>
     (\<forall>t. (map_of kvs ''event'' = None \<or> (\<exists>v. map_of kvs ''event'' = Some v \<and> \<not> truthy v)) \<and>
          map_of kvs ''type'' = Some (JStr t) \<longrightarrow> et = Some t) \<and>
     ((map_of kvs ''event'' = None \<or> (\<exists>v. map_of kvs ''event'' = Some v \<and> \<not> truthy v)) \<and>
          map_of kvs ''type'' = None \<longrightarrow> et = Some ''unknown'') \<and>
     (map_of kvs ''store_id'' = None \<longrightarrow> st = Some ''unknown'') \<and>
     (\<forall>s. map_of kvs ''store_id'' = Some (JStr s) \<longrightarrow> st = Some s)"
proof (intro conjI)
  note w = webhook_obj [OF assms, of ts d]
  show "\<not> dumps_has_surrogate (JObj kvs) \<longrightarrow>
        webhook real_text cfg sig_ok ts d (JObj kvs) =
          (Inr ok_response,
           d\<lparr>events := events d @
                 [\<lparr>e_id = next_id (events_seq d) (map e_id (events d)), e_store_id = st,
                   event_type = et, payload = JObj kvs, e_created_at = ts\<rparr>],
             events_seq := next_id (events_seq d) (map e_id (events d))\<rparr>)"
    unfolding w by (simp del: dumps_has_surrogate.simps)
  show "dumps_has_surrogate (JObj kvs) \<longrightarrow>
        webhook real_text cfg sig_ok ts d (JObj kvs) = (Inl (Uncaught UnicodeEncodeError), d)"
    unfolding w by (simp del: dumps_has_surrogate.simps)
  show "\<forall>e. map_of kvs ''event'' = Some (JStr e) \<and> e \<noteq> [] \<longrightarrow> et = Some e"
    using assms(3) by (auto split: if_splits)
  show "\<forall>t. (map_of kvs ''event'' = None \<or> (\<exists>v. map_of kvs ''event'' = Some v \<and> \<not> truthy v)) \<and>
          map_of kvs ''type'' = Some (JStr t) \<longrightarrow> et = Some t"
    using assms(3) by (auto split: if_splits)
  show "(map_of kvs ''event'' = None \<or> (\<exists>v. map_of kvs ''event'' = Some v \<and> \<not> truthy v)) \<and>
          map_of kvs ''type'' = None \<longrightarrow> et = Some ''unknown''"
    using assms(3) by (auto split: if_splits)
  show "map_of kvs ''store_id'' = None \<longrightarrow> st = Some ''unknown''"
    using assms(2) by (auto split: if_splits)
  show "\<forall>s. map_of kvs ''store_id'' = Some (JStr s) \<longrightarrow> st = Some s"
    using assms(2) by (auto split: if_splits)
qed

theorem webhook_records_event_witness:
  "(SALLA_WEBHOOK_SEC cfg_none = [] \<or> True) \<and>
   \<not> dumps_has_surrogate
       (JObj [(''event'', JStr ''order.paid''), (''type'', JStr ''order.created''),
              (''data'', JObj [(''id'', JInt 7), (''total'', JFloat (Finite False 5 (- 1)))])]) \<and>
   webhook no_real_text cfg_none True 3 db_one
     (JObj [(''event'', JStr ''order.paid''), (''type'', JStr ''order.created''),
            (''data'', JObj [(''id'', JInt 7), (''total'', JFloat (Finite False 5 (- 1)))])])
   = (Inr ok_response,
      db_one\<lparr>events :=
          [\<lparr>e_id = 1, e_store_id = Some ''unknown'', event_type = Some ''order.paid'',
            payload = JObj [(''event'', JStr ''order.paid''), (''type'', JStr ''order.created''),
                            (''data'', JObj [(''id'', JInt 7), (''total'', JFloat (Finite False 5 (- 1)))])],
            e_created_at = 3\<rparr>],
        events_seq := 1\<rparr>) \<and>
   map_of [(''type'', JStr ''order.created''), (''store_id'', JStr ''store-1'')] ''event'' = None \<and>
   webhook no_real_text cfg_none True 3 db_one
     (JObj [(''type'', JStr ''order.created''), (''store_id'', JStr ''store-1'')])
   = (Inr ok_response,
      db_one\<lparr>events :=
          [\<lparr>e_id = 1, e_store_id = Some ''store-1'', event_type = Some ''order.created'',
            payload = JObj [(''type'', JStr ''order.created''), (''store_id'', JStr ''store-1'')],
            e_created_at = 3\<rparr>],
        events_seq := 1\<rparr>) \<and>
   dumps_has_surrogate (JObj [(''event'', JStr ''order.paid''), (''note'', JStr [CHR 0xED, CHR 0xA0, CHR 0xBD])]) \<and>
   webhook no_real_text cfg_none True 3 db_one
     (JObj [(''event'', JStr ''order.paid''), (''note'', JStr [CHR 0xED, CHR 0xA0, CHR 0xBD])])
   = (Inl (Uncaught UnicodeEncodeError), db_one)"
proof -
  let ?kvs = "[(''event'', JStr ''order.paid''), (''type'', JStr ''order.created''),
     (''data'', JObj [(''id'', JInt 7), (''total'', JFloat (Finite False 5 (- 1)))])]"
  let ?kvs2 = "[(''type'', JStr ''order.created''), (''store_id'', JStr ''store-1'')]"
  let ?kvs3 = "[(''event'', JStr ''order.paid''), (''note'', JStr [CHR 0xED, CHR 0xA0, CHR 0xBD])]"
  have a: "SALLA_WEBHOOK_SEC cfg_none = [] \<or> True"
    by simp
  have b: "to_text no_real_text (case map_of ?kvs ''store_id'' of None \<Rightarrow> JStr ''unknown'' | Some v \<Rightarrow> v)
      = Inr (Some ''unknown'')"
    by simp
  have c: "to_text no_real_text
             (if truthy (case map_of ?kvs ''event'' of None \<Rightarrow> JNull | Some v \<Rightarrow> v)
              then (case map_of ?kvs ''event'' of None \<Rightarrow> JNull | Some v \<Rightarrow> v)
              else (case map_of ?kvs ''type'' of None \<Rightarrow> JStr ''unknown'' | Some v \<Rightarrow> v))
      = Inr (Some ''order.paid'')"
    by simp
  have b2: "to_text no_real_text (case map_of ?kvs2 ''store_id'' of None \<Rightarrow> JStr ''unknown'' | Some v \<Rightarrow> v)
      = Inr (Some ''store-1'')"
    by simp
  have c2: "to_text no_real_text
             (if truthy (case map_of ?kvs2 ''event'' of None \<Rightarrow> JNull | Some v \<Rightarrow> v)
              then (case map_of ?kvs2 ''event'' of None \<Rightarrow> JNull | Some v \<Rightarrow> v)
              else (case map_of ?kvs2 ''type'' of None \<Rightarrow> JStr ''unknown'' | Some v \<Rightarrow> v))
      = Inr (Some ''order.created'')"
    by simp
  have b3: "to_text no_real_text (case map_of ?kvs3 ''store_id'' of None \<Rightarrow> JStr ''unknown'' | Some v \<Rightarrow> v)
      = Inr (Some ''unknown'')"
    by simp
  have c3: "to_text no_real_text
             (if truthy (case map_of ?kvs3 ''event'' of None \<Rightarrow> JNull | Some v \<Rightarrow> v)
              then (case map_of ?kvs3 ''event'' of None \<Rightarrow> JNull | Some v \<Rightarrow> v)
              else (case map_of ?kvs3 ''type'' of None \<Rightarrow> JStr ''unknown'' | Some v \<Rightarrow> v))
      = Inr (Some ''order.paid'')"
    by simp
  have n1: "\<not> dumps_has_surrogate (JObj ?kvs)"
    by simp
  have n2: "\<not> dumps_has_surrogate (JObj ?kvs2)"
    by simp
  have n3: "dumps_has_surrogate (JObj ?kvs3)"
    by (simp add: surrogate_seconds_def)
  have 1: "webhook no_real_text cfg_none True 3 db_one (JObj ?kvs)
   = (Inr ok_response,
      db_one\<lparr>events :=
          [\<lparr>e_id = 1, e_store_id = Some ''unknown'', event_type = Some ''order.paid'',
            payload = JObj ?kvs, e_created_at = 3\<rparr>],
        events_seq := 1\<rparr>)"
    using webhook_records_event [OF a b c, where ts = 3 and d = db_one, THEN conjunct1, rule_format, OF n1]
    by (simp add: next_id_def db_one_def db_empty_def)
  have 2: "webhook no_real_text cfg_none True 3 db_one (JObj ?kvs2)
   = (Inr ok_response,
      db_one\<lparr>events :=
          [\<lparr>e_id = 1, e_store_id = Some ''store-1'', event_type = Some ''order.created'',
            payload = JObj ?kvs2, e_created_at = 3\<rparr>],
        events_seq := 1\<rparr>)"
    using webhook_records_event [OF a b2 c2, where ts = 3 and d = db_one, THEN conjunct1, rule_format, OF n2]
    by (simp add: next_id_def db_one_def db_empty_def)
  have 3: "webhook no_real_text cfg_none True 3 db_one (JObj ?kvs3)
      = (Inl (Uncaught UnicodeEncodeError), db_one)"
    using webhook_records_event [OF a b3 c3, where ts = 3 and d = db_one,
        THEN conjunct2, THEN conjunct1, rule_format, OF n3] .
  have e: "map_of ?kvs2 ''event'' = None"
    by simp
  show ?thesis
    by (intro conjI a n1 1 e 2 n3 3)
qed

section \<open>Properties of the template save\<close>

text \<open>What one round of the loop does to the table for an entry of three strings.\<close>

lemma save_template_entry:
  assumes "\<not> has_surrogate k" and "\<not> has_surrogate dn" and "\<not> has_surrogate b"
  shows "save_template real_text sid (template_entry (k, dn, b)) d =
     Inr (update_template sid (Some k) (Some (if dn = [] then k else dn)) (Some b)
            (insert_or_ignore_template sid (Some k) (Some (if dn = [] then k else dn)) (Some b) d))"
  using assms by (simp add: save_template_def template_entry_def py_or_def)

text \<open>A lone surrogate in an entry stops the save at that entry, before anything is written for it.\<close>

lemma save_template_surrogate:
  assumes "has_surrogate k \<or> has_surrogate dn \<or> has_surrogate b"
  shows "save_template real_text sid (template_entry (k, dn, b)) d = Inl UnicodeEncodeError"
  using assms by (auto simp: save_template_def template_entry_def py_or_def)

lemma round_templates:
  "templates (update_template sid (Some k) disp tx (insert_or_ignore_template sid (Some k) disp tx d)) =
     map (\<lambda>r. if t_store_id r = sid \<and> tkey r = Some k then r\<lparr>display_name := disp, body := tx\<rparr> else r)
       (templates d) @
     (if list_ex (\<lambda>r. t_store_id r = sid \<and> tkey r = Some k) (templates d) then []
      else [\<lparr>t_id = next_id (templates_seq d) (map t_id (templates d)), t_store_id = sid,
             tkey = Some k, display_name = disp, body = tx\<rparr>])"
  by (simp add: update_template_def insert_or_ignore_template_def Let_def)

lemma round_other_tables:
  "merchants (update_template sid k disp tx (insert_or_ignore_template sid k disp tx d)) = merchants d \<and>
   store_settings (update_template sid k disp tx (insert_or_ignore_template sid k disp tx d)) = store_settings d \<and>
   events (update_template sid k disp tx (insert_or_ignore_template sid k disp tx d)) = events d \<and>
   logs (update_template sid k disp tx (insert_or_ignore_template sid k disp tx d)) = logs d"
  by (simp add: update_template_def insert_or_ignore_template_def Let_def)

text \<open>After a round for \<open>k\<close>, the tenant has a row for \<open>k\<close>, and each such row has the submitted content.\<close>

lemma round_row_cases:
  assumes "r' \<in> set (templates (update_template sid (Some k) disp tx
                     (insert_or_ignore_template sid (Some k) disp tx d)))"
  shows "(\<exists>r \<in> set (templates d). t_store_id r = sid \<and> tkey r = Some k \<and>
            r' = r\<lparr>display_name := disp, body := tx\<rparr>) \<or>
         (r' \<in> set (templates d) \<and> \<not> (t_store_id r' = sid \<and> tkey r' = Some k)) \<or>
         r' = \<lparr>t_id = next_id (templates_seq d) (map t_id (templates d)), t_store_id = sid,
                tkey = Some k, display_name = disp, body = tx\<rparr>"
proof -
  define f :: "template_row \<Rightarrow> template_row" where "f = (\<lambda>r. if t_store_id r = sid \<and> tkey r = Some k
                            then r\<lparr>display_name := disp, body := tx\<rparr> else r)"
  define new where "new = \<lparr>t_id = next_id (templates_seq d) (map t_id (templates d)), t_store_id = sid,
                tkey = Some k, display_name = disp, body = tx\<rparr>"
  have T: "templates (update_template sid (Some k) disp tx
                     (insert_or_ignore_template sid (Some k) disp tx d))
      = map f (templates d) @
        (if list_ex (\<lambda>r. t_store_id r = sid \<and> tkey r = Some k) (templates d) then [] else [new])"
    unfolding f_def new_def by (rule round_templates)
  from assms have "r' \<in> f ` set (templates d) \<or> r' = new"
    unfolding T by (cases "list_ex (\<lambda>r. t_store_id r = sid \<and> tkey r = Some k) (templates d)") auto
  then show ?thesis
  proof
    assume "r' \<in> f ` set (templates d)"
    then obtain r where r: "r \<in> set (templates d)" "r' = f r"
      by (rule imageE)
    show ?thesis
    proof (cases "t_store_id r = sid \<and> tkey r = Some k")
      case True
      with r have "r' = r\<lparr>display_name := disp, body := tx\<rparr>" by (simp add: f_def)
      with r(1) True show ?thesis by blast
    next
      case False
      with r have "r' = r" by (simp add: f_def)
      with r(1) False show ?thesis by blast
    qed
  next
    assume "r' = new"
    then show ?thesis unfolding new_def by blast
  qed
qed

lemma round_row_present:
  assumes "r \<in> set (templates d)"
  shows "(if t_store_id r = sid \<and> tkey r = Some k then r\<lparr>display_name := disp, body := tx\<rparr> else r)
     \<in> set (templates (update_template sid (Some k) disp tx
                     (insert_or_ignore_template sid (Some k) disp tx d)))"
proof -
  define f :: "template_row \<Rightarrow> template_row" where "f = (\<lambda>r. if t_store_id r = sid \<and> tkey r = Some k
                            then r\<lparr>display_name := disp, body := tx\<rparr> else r)"
  have "templates (update_template sid (Some k) disp tx
                     (insert_or_ignore_template sid (Some k) disp tx d))
      = map f (templates d) @
        (if list_ex (\<lambda>r. t_store_id r = sid \<and> tkey r = Some k) (templates d) then []
         else [\<lparr>t_id = next_id (templates_seq d) (map t_id (templates d)), t_store_id = sid,
                tkey = Some k, display_name = disp, body = tx\<rparr>])"
    unfolding f_def by (rule round_templates)
  moreover have "f r \<in> f ` set (templates d)"
    using assms by (rule imageI)
  ultimately have "f r \<in> set (templates (update_template sid (Some k) disp tx
                     (insert_or_ignore_template sid (Some k) disp tx d)))"
    by simp
  then show ?thesis
    unfolding f_def .
qed

lemma round_has_key:
  "\<exists>r \<in> set (templates (update_template sid (Some k) disp tx
                     (insert_or_ignore_template sid (Some k) disp tx d))).
     t_store_id r = sid \<and> tkey r = Some k"
proof (cases "list_ex (\<lambda>r. t_store_id r = sid \<and> tkey r = Some k) (templates d)")
  case True
  then obtain r where r: "r \<in> set (templates d)" "t_store_id r = sid" "tkey r = Some k"
    unfolding list_ex_iff by blast
  let ?r' = "r\<lparr>display_name := disp, body := tx\<rparr>"
  have "?r' \<in> set (templates (update_template sid (Some k) disp tx
                     (insert_or_ignore_template sid (Some k) disp tx d)))"
    using round_row_present [OF r(1), where sid = sid and k = k and disp = disp and tx = tx] r(2,3) by simp
  moreover have "t_store_id ?r' = sid \<and> tkey ?r' = Some k"
    using r(2,3) by simp
  ultimately show ?thesis by (rule bexI [rotated])
next
  case False
  let ?new = "\<lparr>t_id = next_id (templates_seq d) (map t_id (templates d)), t_store_id = sid,
                tkey = Some k, display_name = disp, body = tx\<rparr>"
  have "?new \<in> set (templates (update_template sid (Some k) disp tx
                     (insert_or_ignore_template sid (Some k) disp tx d)))"
    unfolding round_templates using False by simp
  moreover have "t_store_id ?new = sid \<and> tkey ?new = Some k"
    by simp
  ultimately show ?thesis by (rule bexI [rotated])
qed

lemma round_sets_key:
  assumes "r' \<in> set (templates (update_template sid (Some k) disp tx
                     (insert_or_ignore_template sid (Some k) disp tx d)))"
    and "t_store_id r' = sid" and "tkey r' = Some k"
  shows "display_name r' = disp \<and> body r' = tx"
  using round_row_cases [OF assms(1)]
proof (elim disjE bexE conjE)
  fix r assume "r' = r\<lparr>display_name := disp, body := tx\<rparr>"
  then show ?thesis by simp
next
  assume "\<not> (t_store_id r' = sid \<and> tkey r' = Some k)"
  with assms(2,3) show ?thesis by simp
next
  assume "r' = \<lparr>t_id = next_id (templates_seq d) (map t_id (templates d)), t_store_id = sid,
                tkey = Some k, display_name = disp, body = tx\<rparr>"
  then show ?thesis by simp
qed

text \<open>A round for another key keeps both facts.\<close>

lemma round_keeps_has_key:
  assumes "k' \<noteq> k" and "\<exists>r \<in> set (templates d). t_store_id r = sid \<and> tkey r = Some k"
  shows "\<exists>r \<in> set (templates (update_template sid (Some k') disp' tx'
                     (insert_or_ignore_template sid (Some k') disp' tx' d))).
     t_store_id r = sid \<and> tkey r = Some k"
proof -
  from assms(2) obtain r where r: "r \<in> set (templates d)" "t_store_id r = sid" "tkey r = Some k"
    by blast
  have "r \<in> set (templates (update_template sid (Some k') disp' tx'
                     (insert_or_ignore_template sid (Some k') disp' tx' d)))"
    using round_row_present [OF r(1), where sid = sid and k = k' and disp = disp' and tx = tx'] r(3) assms(1) by simp
  then show ?thesis
    using r(2,3) by blast
qed

lemma round_keeps_key:
  assumes "k' \<noteq> k"
    and "\<forall>r \<in> set (templates d). t_store_id r = sid \<and> tkey r = Some k \<longrightarrow>
            display_name r = disp \<and> body r = tx"
    and "r' \<in> set (templates (update_template sid (Some k') disp' tx'
                     (insert_or_ignore_template sid (Some k') disp' tx' d)))"
    and "t_store_id r' = sid" and "tkey r' = Some k"
  shows "display_name r' = disp \<and> body r' = tx"
  using round_row_cases [OF assms(3)]
proof (elim disjE bexE conjE)
  fix r assume "tkey r = Some k'" "r' = r\<lparr>display_name := disp', body := tx'\<rparr>"
  then have "tkey r' = Some k'" by simp
  with assms(1,5) show ?thesis by simp
next
  assume "r' \<in> set (templates d)"
  with assms(2,4,5) show ?thesis by blast
next
  assume "r' = \<lparr>t_id = next_id (templates_seq d) (map t_id (templates d)), t_store_id = sid,
                tkey = Some k', display_name = disp', body = tx'\<rparr>"
  then have "tkey r' = Some k'" by simp
  with assms(1,5) show ?thesis by simp
qed

text \<open>A round for \<open>k\<close> leaves every row outside \<open>(sid, K)\<close> alone when \<open>k \<in> K\<close>, and adds none.\<close>

lemma round_frame:
  assumes "k \<in> K"
  shows "filter (\<lambda>r. \<not> (t_store_id r = sid \<and> tkey r \<in> Some ` K))
           (templates (update_template sid (Some k) disp tx (insert_or_ignore_template sid (Some k) disp tx d)))
       = filter (\<lambda>r. \<not> (t_store_id r = sid \<and> tkey r \<in> Some ` K)) (templates d)"
proof -
  let ?F = "\<lambda>r. \<not> (t_store_id r = sid \<and> tkey r \<in> Some ` K)"
  let ?f = "\<lambda>r. if t_store_id r = sid \<and> tkey r = Some k then r\<lparr>display_name := disp, body := tx\<rparr> else r"
  have "filter ?F (map ?f xs) = filter ?F xs" for xs :: "template_row list"
    using assms by (induction xs) auto
  then show ?thesis
    unfolding round_templates using assms by simp
qed

lemma save_template_round:
  assumes "\<not> has_surrogate (fst e) \<and> \<not> has_surrogate (fst (snd e)) \<and> \<not> has_surrogate (snd (snd e))"
  shows "save_template real_text sid (template_entry e) d = Inr (entry_round sid e d)"
  using assms by (cases e) (simp add: save_template_entry entry_round_def)

lemma save_templates_loop_entries:
  assumes "\<forall>e \<in> set es.
     \<not> has_surrogate (fst e) \<and> \<not> has_surrogate (fst (snd e)) \<and> \<not> has_surrogate (snd (snd e))"
  shows "save_templates_loop real_text sid (map template_entry es) d = (None, fold (entry_round sid) es d)"
  using assms
proof (induction es arbitrary: d)
  case Nil
  show ?case by simp
next
  case (Cons e es)
  have h: "\<not> has_surrogate (fst e) \<and> \<not> has_surrogate (fst (snd e)) \<and> \<not> has_surrogate (snd (snd e))"
    and r: "\<forall>e \<in> set es.
       \<not> has_surrogate (fst e) \<and> \<not> has_surrogate (fst (snd e)) \<and> \<not> has_surrogate (snd (snd e))"
    using Cons.prems by simp_all
  show ?case
    using Cons.IH [OF r] by (simp add: save_template_round [OF h])
qed

lemma entry_rounds_other_tables:
  "merchants (fold (entry_round sid) es d) = merchants d \<and>
   store_settings (fold (entry_round sid) es d) = store_settings d \<and>
   events (fold (entry_round sid) es d) = events d \<and>
   logs (fold (entry_round sid) es d) = logs d"
proof (induction es arbitrary: d)
  case Nil
  show ?case by simp
next
  case (Cons e es)
  show ?case
    using Cons [of "entry_round sid e d"] round_other_tables [of sid "Some (fst e)" _ _ d]
    by (simp add: entry_round_def)
qed

lemma entry_rounds_frame:
  assumes "\<forall>e \<in> set es. fst e \<in> K"
  shows "filter (\<lambda>r. \<not> (t_store_id r = sid \<and> tkey r \<in> Some ` K)) (templates (fold (entry_round sid) es d))
       = filter (\<lambda>r. \<not> (t_store_id r = sid \<and> tkey r \<in> Some ` K)) (templates d)"
  using assms
proof (induction es arbitrary: d)
  case Nil
  show ?case by simp
next
  case (Cons e es)
  have k: "fst e \<in> K" and r: "\<forall>e \<in> set es. fst e \<in> K"
    using Cons.prems by simp_all
  have "filter (\<lambda>r. \<not> (t_store_id r = sid \<and> tkey r \<in> Some ` K)) (templates (entry_round sid e d))
       = filter (\<lambda>r. \<not> (t_store_id r = sid \<and> tkey r \<in> Some ` K)) (templates d)"
    unfolding entry_round_def using k by (rule round_frame)
  with Cons.IH [OF r, of "entry_round sid e d"] show ?case
    by simp
qed

lemma entry_rounds_keep_key:
  assumes "\<forall>e \<in> set post. fst e \<noteq> k"
    and "\<exists>r \<in> set (templates d). t_store_id r = sid \<and> tkey r = Some k"
    and "\<forall>r \<in> set (templates d). t_store_id r = sid \<and> tkey r = Some k \<longrightarrow>
            display_name r = disp \<and> body r = tx"
  shows "(\<exists>r \<in> set (templates (fold (entry_round sid) post d)). t_store_id r = sid \<and> tkey r = Some k) \<and>
         (\<forall>r \<in> set (templates (fold (entry_round sid) post d)). t_store_id r = sid \<and> tkey r = Some k \<longrightarrow>
            display_name r = disp \<and> body r = tx)"
  using assms
proof (induction post arbitrary: d)
  case Nil
  then show ?case by simp
next
  case (Cons e post)
  have n: "fst e \<noteq> k" and r: "\<forall>e \<in> set post. fst e \<noteq> k"
    using Cons.prems(1) by simp_all
  have 1: "\<exists>r \<in> set (templates (entry_round sid e d)). t_store_id r = sid \<and> tkey r = Some k"
    unfolding entry_round_def using n Cons.prems(2) by (rule round_keeps_has_key)
  have 2: "\<forall>r \<in> set (templates (entry_round sid e d)). t_store_id r = sid \<and> tkey r = Some k \<longrightarrow>
            display_name r = disp \<and> body r = tx"
  proof (intro ballI impI)
    fix r assume "r \<in> set (templates (entry_round sid e d))" "t_store_id r = sid \<and> tkey r = Some k"
    then show "display_name r = disp \<and> body r = tx"
      using round_keeps_key [OF n Cons.prems(3), of r] unfolding entry_round_def by blast
  qed
  show ?case
    using Cons.IH [OF r 1 2] by simp
qed

lemma entry_rounds_last_wins:
  assumes "\<forall>e \<in> set post. fst e \<noteq> k"
  shows "(\<exists>r \<in> set (templates (fold (entry_round sid) (pre @ (k, dn, b) # post) d)).
            t_store_id r = sid \<and> tkey r = Some k) \<and>
         (\<forall>r \<in> set (templates (fold (entry_round sid) (pre @ (k, dn, b) # post) d)).
            t_store_id r = sid \<and> tkey r = Some k \<longrightarrow>
            display_name r = Some (if dn = [] then k else dn) \<and> body r = Some b)"
proof -
  define d1 where "d1 = fold (entry_round sid) pre d"
  define d2 where "d2 = entry_round sid (k, dn, b) d1"
  have f: "fold (entry_round sid) (pre @ (k, dn, b) # post) d = fold (entry_round sid) post d2"
    by (simp add: d1_def d2_def)
  have 1: "\<exists>r \<in> set (templates d2). t_store_id r = sid \<and> tkey r = Some k"
    unfolding d2_def entry_round_def fst_conv snd_conv by (rule round_has_key)
  have 2: "\<forall>r \<in> set (templates d2). t_store_id r = sid \<and> tkey r = Some k \<longrightarrow>
            display_name r = Some (if dn = [] then k else dn) \<and> body r = Some b"
  proof (intro ballI impI)
    fix r assume "r \<in> set (templates d2)" "t_store_id r = sid \<and> tkey r = Some k"
    then show "display_name r = Some (if dn = [] then k else dn) \<and> body r = Some b"
      unfolding d2_def entry_round_def fst_conv snd_conv using round_sets_key by blast
  qed
  show ?thesis
    unfolding f using assms 1 2 by (rule entry_rounds_keep_key)
qed

lemma get_store_merchants:
  "merchants d' = merchants d \<Longrightarrow> get_store d' sid = get_store d sid"
  unfolding get_store_def by (cases sid) simp_all

lemma api_save_templates_entries:
  assumes "get_store d sid = Some store"
    and "map_of kvs ''templates'' = Some (JArr (map template_entry es))"
    and "\<forall>e \<in> set es.
       \<not> has_surrogate (fst e) \<and> \<not> has_surrogate (fst (snd e)) \<and> \<not> has_surrogate (snd (snd e))"
  shows "api_save_templates real_text d sid (JObj kvs) =
     (Inr ok_response, fold (entry_round (store_id store)) es d)"
  using assms(1,2)
  by (simp add: api_save_templates_def py_or_def save_templates_loop_entries [OF assms(3)])

lemma set_select_templates:
  "set (select_templates d sid) =
     (\<lambda>r. (tkey r, display_name r, body r)) ` {r \<in> set (templates d). t_store_id r = sid}"
  by (simp add: select_templates_def)

text \<open>
  C5, as stated, fails: the display name is not always set to the submitted value. An entry
  submitted with an empty \<^verbatim>\<open>display_name\<close> is stored with its key as the display name.
\<close>

theorem save_templates_display_name_counterexample:
  "map_of [(''tkey'', JStr ''order_paid''), (''display_name'', JStr []), (''body'', JStr ''hi'')]
     ''display_name'' = Some (JStr []) \<and>
   map (\<lambda>r. (tkey r, display_name r, body r))
     (templates (snd (api_save_templates no_real_text db_one (Some ''store-1'')
        (JObj [(''templates'',
           JArr [JObj [(''tkey'', JStr ''order_paid''), (''display_name'', JStr []),
                       (''body'', JStr ''hi'')]])]))))
   = [(Some ''order_paid'', Some ''order_paid'', Some ''hi'')] \<and>
   Some ''order_paid'' \<noteq> Some []"
  by (simp add: api_save_templates_def get_store_def db_one_def db_empty_def shop_a_def py_or_def
      save_template_def insert_or_ignore_template_def update_template_def next_id_def Let_def)

text \<open>
  C5 (amended): for a resolved tenant and a save whose entries are
  \<^verbatim>\<open>{tkey, display_name, body}\<close> of strings that SQLite can encode (none holds a lone
  surrogate), take the last entry for a key \<open>k\<close>. The save
  succeeds; re-reading the tenant's templates returns a row for \<open>k\<close>, and every row for
  \<open>k\<close> has exactly the submitted body and, as display name, the submitted one, or \<open>k\<close>
  itself when the submitted one is empty. The rows of other tenants and the rows whose key
  is not in the submitted list are the same as before, in the same order, and the other
  tables are unchanged.
\<close>

theorem save_templates_postcondition:
  assumes "get_store d sid = Some store"
    and "map_of kvs ''templates'' = Some (JArr (map template_entry es))"
    and "es = pre @ (k, dn, b) # post" and "\<forall>e \<in> set post. fst e \<noteq> k"
    and "\<forall>e \<in> set es.
       \<not> has_surrogate (fst e) \<and> \<not> has_surrogate (fst (snd e)) \<and> \<not> has_surrogate (snd (snd e))"
  shows "\<exists>d'. api_save_templates real_text d sid (JObj kvs) = (Inr ok_response, d') \<and>
     api_get_templates ts d' sid = (Inr (select_templates d' (store_id store)), d') \<and>
     (\<exists>row \<in> set (select_templates d' (store_id store)). fst row = Some k) \<and>
     (\<forall>row \<in> set (select_templates d' (store_id store)). fst row = Some k \<longrightarrow>
        snd (snd row) = Some b \<and> fst (snd row) = Some (if dn = [] then k else dn)) \<and>
     filter (\<lambda>r. \<not> (t_store_id r = store_id store \<and> tkey r \<in> Some ` fst ` set es)) (templates d')
       = filter (\<lambda>r. \<not> (t_store_id r = store_id store \<and> tkey r \<in> Some ` fst ` set es)) (templates d) \<and>
     merchants d' = merchants d \<and> store_settings d' = store_settings d \<and>
     events d' = events d \<and> logs d' = logs d"
proof -
  define s where "s = store_id store"
  define d' where "d' = fold (entry_round s) es d"
  have 1: "api_save_templates real_text d sid (JObj kvs) = (Inr ok_response, d')"
    unfolding d'_def s_def using assms(1,2,5) by (rule api_save_templates_entries)
  have o: "merchants d' = merchants d \<and> store_settings d' = store_settings d \<and>
     events d' = events d \<and> logs d' = logs d"
    unfolding d'_def by (rule entry_rounds_other_tables)
  have g: "get_store d' sid = Some store"
    using get_store_merchants [of d' d sid] o assms(1) by simp
  have l: "(\<exists>r \<in> set (templates d'). t_store_id r = s \<and> tkey r = Some k) \<and>
         (\<forall>r \<in> set (templates d'). t_store_id r = s \<and> tkey r = Some k \<longrightarrow>
            display_name r = Some (if dn = [] then k else dn) \<and> body r = Some b)"
    unfolding d'_def assms(3) using assms(4) by (rule entry_rounds_last_wins)
  then obtain r where r: "r \<in> set (templates d')" "t_store_id r = s" "tkey r = Some k"
    by blast
  then have m: "(tkey r, display_name r, body r) \<in> set (select_templates d' s)"
    unfolding set_select_templates by blast
  then have ne: "select_templates d' s \<noteq> []"
    by auto
  have 2: "api_get_templates ts d' sid = (Inr (select_templates d' s), d')"
    using g ne by (simp add: api_get_templates_def s_def)
  have 3: "\<exists>row \<in> set (select_templates d' s). fst row = Some k"
    using m r(3) by force
  have 4: "\<forall>row \<in> set (select_templates d' s). fst row = Some k \<longrightarrow>
        snd (snd row) = Some b \<and> fst (snd row) = Some (if dn = [] then k else dn)"
  proof (intro ballI impI)
    fix row assume "row \<in> set (select_templates d' s)" and k: "fst row = Some k"
    then obtain r' where r': "r' \<in> set (templates d')" "t_store_id r' = s"
        "row = (tkey r', display_name r', body r')"
      unfolding set_select_templates by blast
    with k have "tkey r' = Some k" by simp
    with l r' have "display_name r' = Some (if dn = [] then k else dn) \<and> body r' = Some b"
      by blast
    with r'(3) show "snd (snd row) = Some b \<and> fst (snd row) = Some (if dn = [] then k else dn)"
      by simp
  qed
  have 5: "filter (\<lambda>r. \<not> (t_store_id r = s \<and> tkey r \<in> Some ` fst ` set es)) (templates d')
       = filter (\<lambda>r. \<not> (t_store_id r = s \<and> tkey r \<in> Some ` fst ` set es)) (templates d)"
    unfolding d'_def by (rule entry_rounds_frame) simp
  show ?thesis
    using 1 2 3 4 5 o unfolding s_def by blast
qed

theorem save_templates_postcondition_witness:
  "get_store db_one (Some ''store-1'') = Some shop_a \<and>
   [(''order_created'', ''Created'', ''first''), (''order_paid'', ''Paid'', ''old body''),
    (''order_paid'', ''Paid'', ''new body''), (''delivered'', [], ''last'')]
     = [(''order_created'', ''Created'', ''first''), (''order_paid'', ''Paid'', ''old body'')]
       @ (''order_paid'', ''Paid'', ''new body'') # [(''delivered'', [], ''last'')] \<and>
   list_all (\<lambda>e. fst e \<noteq> ''order_paid'') [(''delivered'', [], ''last'')] \<and>
   list_all (\<lambda>e. \<not> has_surrogate (fst e) \<and> \<not> has_surrogate (fst (snd e)) \<and> \<not> has_surrogate (snd (snd e)))
     [(''order_created'', ''Created'', ''first''), (''order_paid'', ''Paid'', ''old body''),
      (''order_paid'', ''Paid'', ''new body''), (''delivered'', [], ''last'')] \<and>
   (\<exists>d'. api_save_templates no_real_text db_one (Some ''store-1'')
            (JObj [(''templates'', JArr (map template_entry
               [(''order_created'', ''Created'', ''first''), (''order_paid'', ''Paid'', ''old body''),
                (''order_paid'', ''Paid'', ''new body''), (''delivered'', [], ''last'')]))])
          = (Inr ok_response, d') \<and>
        api_get_templates 4 d' (Some ''store-1'') = (Inr (select_templates d' ''store-1''), d') \<and>
        (\<exists>row \<in> set (select_templates d' ''store-1''). fst row = Some ''order_paid'') \<and>
        (\<forall>row \<in> set (select_templates d' ''store-1''). fst row = Some ''order_paid'' \<longrightarrow>
           snd (snd row) = Some ''new body'' \<and> fst (snd row) = Some ''Paid''))"
proof -
  let ?es = "[(''order_created'', ''Created'', ''first''), (''order_paid'', ''Paid'', ''old body''),
              (''order_paid'', ''Paid'', ''new body''), (''delivered'', [], ''last'')]"
  have s: "get_store db_one (Some ''store-1'') = Some shop_a"
    by code_simp
  have m: "map_of [(''templates'', JArr (map template_entry ?es))] ''templates''
      = Some (JArr (map template_entry ?es))"
    by simp
  have e: "?es = [(''order_created'', ''Created'', ''first''), (''order_paid'', ''Paid'', ''old body'')]
       @ (''order_paid'', ''Paid'', ''new body'') # [(''delivered'', [], ''last'')]"
    by simp
  have p: "\<forall>e \<in> set [(''delivered'', [], ''last'')]. fst e \<noteq> ''order_paid''"
    by simp
  have q: "list_all (\<lambda>e. fst e \<noteq> ''order_paid'') [(''delivered'', [], ''last'')]"
    by simp
  have h: "\<forall>e \<in> set ?es.
      \<not> has_surrogate (fst e) \<and> \<not> has_surrogate (fst (snd e)) \<and> \<not> has_surrogate (snd (snd e))"
    by simp
  have h': "list_all (\<lambda>e. \<not> has_surrogate (fst e) \<and> \<not> has_surrogate (fst (snd e)) \<and> \<not> has_surrogate (snd (snd e))) ?es"
    by simp
  have i: "store_id shop_a = ''store-1''" "(if ''Paid'' = [] then ''order_paid'' else ''Paid'') = ''Paid''"
    by (simp_all add: shop_a_def)
  show ?thesis
    using save_templates_postcondition [OF s m e p h, where ts = 4 and real_text = no_real_text] s e q h'
    unfolding i by blast
qed

section \<open>Properties of the preview renderer\<close>

lemma replaceAll_Nil: "pat \<noteq> [] \<Longrightarrow> replaceAll pat rep [] = []"
  by (subst replaceAll.simps) simp

lemma replaceAll_match:
  "pat \<noteq> [] \<Longrightarrow> take (length pat) s = pat \<Longrightarrow>
   replaceAll pat rep s = rep @ replaceAll pat rep (drop (length pat) s)"
  by (subst replaceAll.simps) auto

lemma replaceAll_skip:
  "pat \<noteq> [] \<Longrightarrow> take (length pat) (c # cs) \<noteq> pat \<Longrightarrow>
   replaceAll pat rep (c # cs) = c # replaceAll pat rep cs"
  by (subst replaceAll.simps) simp

text \<open>A placeholder is an opening brace, a name without braces, and a closing brace.\<close>

lemma first_close:
  "CHR ''}'' \<notin> set q \<Longrightarrow> CHR ''}'' \<notin> set tok \<Longrightarrow>
   q @ CHR ''}'' # r = tok @ CHR ''}'' # r' \<Longrightarrow> q = tok"
proof (induction q arbitrary: tok)
  case Nil
  then show ?case by (cases tok) auto
next
  case (Cons a q)
  then show ?case by (cases tok) auto
qed

lemma take_eq_append: "take (length p) s = p \<Longrightarrow> s = p @ drop (length p) s"
  by (metis append_take_drop_id)

lemma no_match_at_token:
  assumes "CHR ''}'' \<notin> set q" and "CHR ''}'' \<notin> set tok" and "tok \<noteq> q"
  shows "take (length (CHR ''{'' # q @ ''}'')) (CHR ''{'' # tok @ ''}'' @ ys) \<noteq> CHR ''{'' # q @ ''}''"
proof
  assume "take (length (CHR ''{'' # q @ ''}'')) (CHR ''{'' # tok @ ''}'' @ ys) = CHR ''{'' # q @ ''}''"
  then have "CHR ''{'' # tok @ ''}'' @ ys =
      (CHR ''{'' # q @ ''}'') @ drop (length (CHR ''{'' # q @ ''}'')) (CHR ''{'' # tok @ ''}'' @ ys)"
    by (rule take_eq_append)
  then have "q @ CHR ''}'' # drop (length (CHR ''{'' # q @ ''}'')) (CHR ''{'' # tok @ ''}'' @ ys)
      = tok @ CHR ''}'' # ys"
    by simp
  then have "q = tok"
    using assms(1,2) by (rule first_close [rotated 2])
  with assms(3) show False by simp
qed

lemma replaceAll_no_open:
  assumes "CHR ''{'' \<notin> set zs"
  shows "replaceAll (CHR ''{'' # q) rep (zs @ ys) = zs @ replaceAll (CHR ''{'' # q) rep ys"
  using assms
proof (induction zs)
  case Nil
  show ?case by simp
next
  case (Cons z zs)
  then have "z \<noteq> CHR ''{''" by auto
  then have n: "take (length (CHR ''{'' # q)) (z # zs @ ys) \<noteq> CHR ''{'' # q"
    by auto
  show ?case
    using Cons by (simp add: replaceAll_skip [OF _ n])
qed

lemma replaceAll_token:
  assumes "CHR ''}'' \<notin> set q" and "CHR ''{'' \<notin> set tok" and "CHR ''}'' \<notin> set tok" and "tok \<noteq> q"
  shows "replaceAll (CHR ''{'' # q @ ''}'') rep (CHR ''{'' # tok @ ''}'' @ ys)
     = CHR ''{'' # tok @ ''}'' @ replaceAll (CHR ''{'' # q @ ''}'') rep ys"
proof -
  have n: "take (length (CHR ''{'' # q @ ''}'')) (CHR ''{'' # (tok @ ''}'' @ ys)) \<noteq> CHR ''{'' # q @ ''}''"
    using no_match_at_token [OF assms(1,3,4)] by simp
  have z: "CHR ''{'' \<notin> set (tok @ ''}'')"
    using assms(2) by simp
  have "replaceAll (CHR ''{'' # q @ ''}'') rep (CHR ''{'' # (tok @ ''}'' @ ys))
      = CHR ''{'' # replaceAll (CHR ''{'' # q @ ''}'') rep ((tok @ ''}'') @ ys)"
    using replaceAll_skip [OF _ n] by simp
  also have "replaceAll (CHR ''{'' # q @ ''}'') rep ((tok @ ''}'') @ ys)
      = (tok @ ''}'') @ replaceAll (CHR ''{'' # q @ ''}'') rep ys"
    using z by (rule replaceAll_no_open)
  finally show ?thesis by simp
qed

lemma take_eq_length: "take (length p) s = p \<Longrightarrow> length p \<le> length s"
proof -
  assume "take (length p) s = p"
  then have "length (take (length p) s) = length p" by simp
  then have "min (length s) (length p) = length p" by simp
  then show ?thesis by arith
qed

lemma take_within_append: "n \<le> length xs \<Longrightarrow> take n (xs @ ys) = take n xs"
  by simp

lemma drop_within_append: "n \<le> length xs \<Longrightarrow> drop n (xs @ ys) = drop n xs @ ys"
  by simp

lemma take_past_append:
  "\<not> n \<le> length xs \<Longrightarrow> take n (xs @ a # r) = xs @ a # take (n - Suc (length xs)) r"
proof -
  assume a: "\<not> n \<le> length xs"
  have t: "take (length xs + Suc k) (xs @ a # r) = xs @ a # take k r" for k
    by simp
  have "n = length xs + Suc (n - Suc (length xs))"
    using a by arith
  then show ?thesis
    using t [of "n - Suc (length xs)"] by simp
qed

lemma no_match_across_token:
  assumes "CHR ''{'' \<notin> set q"
    and "take (length (CHR ''{'' # q @ ''}'')) (c # cs) \<noteq> CHR ''{'' # q @ ''}''"
  shows "take (length (CHR ''{'' # q @ ''}'')) ((c # cs) @ CHR ''{'' # r) \<noteq> CHR ''{'' # q @ ''}''"
proof
  define P where "P = CHR ''{'' # q @ ''}''"
  assume "take (length (CHR ''{'' # q @ ''}'')) ((c # cs) @ CHR ''{'' # r) = CHR ''{'' # q @ ''}''"
  then have m: "take (length P) ((c # cs) @ CHR ''{'' # r) = P"
    unfolding P_def .
  have n: "take (length P) (c # cs) \<noteq> P"
    using assms(2) unfolding P_def .
  show False
  proof (cases "length P \<le> length (c # cs)")
    case True
    then have "take (length P) ((c # cs) @ CHR ''{'' # r) = take (length P) (c # cs)"
      by (rule take_within_append)
    with m n show False by simp
  next
    case False
    then have "take (length P) ((c # cs) @ CHR ''{'' # r)
        = (c # cs) @ CHR ''{'' # take (length P - Suc (length (c # cs))) r"
      by (rule take_past_append)
    with m obtain rest where "P = (c # cs) @ CHR ''{'' # rest"
      by simp
    then have e: "q @ ''}'' = cs @ CHR ''{'' # rest"
      by (simp add: P_def)
    have "set (q @ ''}'') = set (cs @ CHR ''{'' # rest)"
      by (rule arg_cong [OF e])
    then have "CHR ''{'' \<in> set (q @ ''}'')"
      by simp
    with assms(1) show False by simp
  qed
qed

lemma replaceAll_around_token:
  assumes "CHR ''{'' \<notin> set q" and "CHR ''}'' \<notin> set q"
    and "CHR ''{'' \<notin> set tok" and "CHR ''}'' \<notin> set tok" and "tok \<noteq> q"
  shows "replaceAll (CHR ''{'' # q @ ''}'') rep (xs @ CHR ''{'' # tok @ ''}'' @ ys)
     = replaceAll (CHR ''{'' # q @ ''}'') rep xs @ CHR ''{'' # tok @ ''}''
         @ replaceAll (CHR ''{'' # q @ ''}'') rep ys"
proof (induction xs rule: length_induct)
  case (1 xs)
  define P where "P = CHR ''{'' # q @ ''}''"
  define T where "T = CHR ''{'' # tok @ ''}''"
  have ne: "P \<noteq> []" by (simp add: P_def)
  have ih: "replaceAll P rep (zs @ T @ ys) = replaceAll P rep zs @ T @ replaceAll P rep ys"
    if "length zs < length xs" for zs
    using "1.IH" [rule_format, OF that] unfolding P_def T_def by simp
  have tok: "replaceAll P rep (T @ ys) = T @ replaceAll P rep ys"
    using replaceAll_token [OF assms(2,3,4,5), of rep ys] unfolding P_def T_def by simp
  have "replaceAll P rep (xs @ T @ ys) = replaceAll P rep xs @ T @ replaceAll P rep ys"
  proof (cases xs)
    case Nil
    then show ?thesis
      using tok by (simp add: replaceAll_Nil [OF ne])
  next
    case (Cons c cs)
    show ?thesis
    proof (cases "take (length P) (c # cs) = P")
      case True
      then have le: "length P \<le> length (c # cs)"
        by (rule take_eq_length)
      have t: "take (length P) ((c # cs) @ T @ ys) = P"
        using take_within_append [OF le, of "T @ ys"] True by simp
      have d: "drop (length P) ((c # cs) @ T @ ys) = drop (length P) (c # cs) @ T @ ys"
        using le by (rule drop_within_append)
      have "length (drop (length P) (c # cs)) < length xs"
        using Cons ne by simp
      then have i: "replaceAll P rep (drop (length P) (c # cs) @ T @ ys)
          = replaceAll P rep (drop (length P) (c # cs)) @ T @ replaceAll P rep ys"
        by (rule ih)
      have "replaceAll P rep ((c # cs) @ T @ ys)
          = rep @ replaceAll P rep (drop (length P) ((c # cs) @ T @ ys))"
        using ne t by (rule replaceAll_match)
      also have "\<dots> = rep @ replaceAll P rep (drop (length P) (c # cs)) @ T @ replaceAll P rep ys"
        unfolding d i ..
      also have "\<dots> = (rep @ replaceAll P rep (drop (length P) (c # cs))) @ T @ replaceAll P rep ys"
        by simp
      also have "rep @ replaceAll P rep (drop (length P) (c # cs)) = replaceAll P rep (c # cs)"
        using replaceAll_match [OF ne True, of rep] by simp
      finally show ?thesis
        unfolding Cons .
    next
      case False
      have "take (length P) ((c # cs) @ CHR ''{'' # (tok @ ''}'' @ ys)) \<noteq> P"
        unfolding P_def by (rule no_match_across_token [OF assms(1) False [unfolded P_def]])
      then have n: "take (length P) (c # (cs @ T @ ys)) \<noteq> P"
        unfolding T_def by simp
      have "length cs < length xs"
        using Cons by simp
      then have i: "replaceAll P rep (cs @ T @ ys) = replaceAll P rep cs @ T @ replaceAll P rep ys"
        by (rule ih)
      have a: "replaceAll P rep (c # (cs @ T @ ys)) = c # replaceAll P rep (cs @ T @ ys)"
        using ne n by (rule replaceAll_skip)
      have b: "replaceAll P rep (c # cs) = c # replaceAll P rep cs"
        using ne False by (rule replaceAll_skip)
      have "replaceAll P rep ((c # cs) @ T @ ys) = replaceAll P rep (c # (cs @ T @ ys))"
        by simp
      also have "\<dots> = (c # replaceAll P rep cs) @ T @ replaceAll P rep ys"
        unfolding a i by simp
      finally show ?thesis
        unfolding Cons b .
    qed
  qed
  then show ?case
    unfolding P_def T_def by simp
qed

lemma placeholders_shape:
  "''{name}'' = CHR ''{'' # ''name'' @ ''}''" "''{order_no}'' = CHR ''{'' # ''order_no'' @ ''}''"
  "''{order_url}'' = CHR ''{'' # ''order_url'' @ ''}''" "''{tracking_no}'' = CHR ''{'' # ''tracking_no'' @ ''}''"
  by simp_all

lemma updatePreview_around_token:
  assumes "CHR ''{'' \<notin> set tok" and "CHR ''}'' \<notin> set tok"
    and "CHR ''{'' # tok @ ''}'' \<notin> set PLACEHOLDERS"
  shows "updatePreview (pre @ CHR ''{'' # tok @ ''}'' @ post)
     = updatePreview pre @ CHR ''{'' # tok @ ''}'' @ updatePreview post"
proof -
  have t: "tok \<noteq> ''name''" "tok \<noteq> ''order_no''" "tok \<noteq> ''order_url''" "tok \<noteq> ''tracking_no''"
    using assms(3) by (auto simp: PLACEHOLDERS_def)
  have 1: "\<And>rep xs ys. replaceAll ''{name}'' rep (xs @ CHR ''{'' # tok @ ''}'' @ ys)
     = replaceAll ''{name}'' rep xs @ CHR ''{'' # tok @ ''}'' @ replaceAll ''{name}'' rep ys"
    unfolding placeholders_shape
    by (rule replaceAll_around_token [OF _ _ assms(1,2) t(1)]) simp_all
  have 2: "\<And>rep xs ys. replaceAll ''{order_no}'' rep (xs @ CHR ''{'' # tok @ ''}'' @ ys)
     = replaceAll ''{order_no}'' rep xs @ CHR ''{'' # tok @ ''}'' @ replaceAll ''{order_no}'' rep ys"
    unfolding placeholders_shape
    by (rule replaceAll_around_token [OF _ _ assms(1,2) t(2)]) simp_all
  have 3: "\<And>rep xs ys. replaceAll ''{order_url}'' rep (xs @ CHR ''{'' # tok @ ''}'' @ ys)
     = replaceAll ''{order_url}'' rep xs @ CHR ''{'' # tok @ ''}'' @ replaceAll ''{order_url}'' rep ys"
    unfolding placeholders_shape
    by (rule replaceAll_around_token [OF _ _ assms(1,2) t(3)]) simp_all
  have 4: "\<And>rep xs ys. replaceAll ''{tracking_no}'' rep (xs @ CHR ''{'' # tok @ ''}'' @ ys)
     = replaceAll ''{tracking_no}'' rep xs @ CHR ''{'' # tok @ ''}'' @ replaceAll ''{tracking_no}'' rep ys"
    unfolding placeholders_shape
    by (rule replaceAll_around_token [OF _ _ assms(1,2) t(4)]) simp_all
  show ?thesis
    unfolding updatePreview_def 1 2 3 4 ..
qed

lemma fold_around:
  assumes "\<And>p xs ys. p \<in> set ps \<Longrightarrow> f p (xs @ T @ ys) = f p xs @ T @ f p ys"
  shows "fold f ps (xs @ T @ ys) = fold f ps xs @ T @ fold f ps ys"
  using assms
proof (induction ps arbitrary: xs ys)
  case Nil
  show ?case by simp
next
  case (Cons p ps)
  have h: "f p (xs @ T @ ys) = f p xs @ T @ f p ys"
    by (rule Cons.prems) simp
  have "fold f ps (f p xs @ T @ f p ys) = fold f ps (f p xs) @ T @ fold f ps (f p ys)"
    by (rule Cons.IH) (rule Cons.prems, simp)
  then show ?case
    by (simp add: h)
qed

lemma placeholder_cases:
  assumes "p \<in> set PLACEHOLDERS"
  obtains q where "p = CHR ''{'' # q @ ''}''" and "placeholder_name p = q"
    and "CHR ''{'' \<notin> set q" and "CHR ''}'' \<notin> set q"
proof -
  from assms have "p = ''{name}'' \<or> p = ''{order_no}'' \<or> p = ''{order_url}'' \<or> p = ''{tracking_no}''"
    by (simp add: PLACEHOLDERS_def)
  then have "p = CHR ''{'' # placeholder_name p @ ''}'' \<and>
      CHR ''{'' \<notin> set (placeholder_name p) \<and> CHR ''}'' \<notin> set (placeholder_name p)"
    by (elim disjE) (simp_all add: placeholder_name_def)
  then show thesis
    using that [of "placeholder_name p"] by simp
qed

lemma render_step_around_token:
  assumes "CHR ''{'' \<notin> set tok" and "CHR ''}'' \<notin> set tok" and "p \<in> set PLACEHOLDERS"
    and "p = CHR ''{'' # tok @ ''}'' \<Longrightarrow> map_of m tok = None"
  shows "render_step m p (xs @ (CHR ''{'' # tok @ ''}'') @ ys)
     = render_step m p xs @ (CHR ''{'' # tok @ ''}'') @ render_step m p ys"
proof -
  from assms(3) obtain q where q: "p = CHR ''{'' # q @ ''}''" "placeholder_name p = q"
      "CHR ''{'' \<notin> set q" "CHR ''}'' \<notin> set q"
    by (rule placeholder_cases)
  show ?thesis
  proof (cases "map_of m q")
    case None
    then show ?thesis
      by (simp add: render_step_def q(2))
  next
    case (Some v)
    have "tok \<noteq> q"
    proof
      assume "tok = q"
      then have "map_of m tok = None"
        using assms(4) q(1) by simp
      with Some \<open>tok = q\<close> show False by simp
    qed
    then have "replaceAll (CHR ''{'' # q @ ''}'') v (xs @ CHR ''{'' # tok @ ''}'' @ ys)
        = replaceAll (CHR ''{'' # q @ ''}'') v xs @ CHR ''{'' # tok @ ''}''
            @ replaceAll (CHR ''{'' # q @ ''}'') v ys"
      by (rule replaceAll_around_token [OF q(3,4) assms(1,2)])
    then have "replaceAll p v (xs @ (CHR ''{'' # tok @ ''}'') @ ys)
        = replaceAll p v xs @ (CHR ''{'' # tok @ ''}'') @ replaceAll p v ys"
      unfolding q(1) by simp
    then show ?thesis
      by (simp only: render_step_def q(2) Some option.case)
  qed
qed

lemma render_around_token:
  assumes "CHR ''{'' \<notin> set tok" and "CHR ''}'' \<notin> set tok"
    and "CHR ''{'' # tok @ ''}'' \<in> set PLACEHOLDERS \<Longrightarrow> map_of m tok = None"
  shows "render (pre @ CHR ''{'' # tok @ ''}'' @ post) m
     = render pre m @ CHR ''{'' # tok @ ''}'' @ render post m"
proof -
  have "fold (render_step m) PLACEHOLDERS (pre @ (CHR ''{'' # tok @ ''}'') @ post)
      = fold (render_step m) PLACEHOLDERS pre @ (CHR ''{'' # tok @ ''}'')
          @ fold (render_step m) PLACEHOLDERS post"
  proof (rule fold_around)
    fix p xs ys
    assume p: "p \<in> set PLACEHOLDERS"
    show "render_step m p (xs @ (CHR ''{'' # tok @ ''}'') @ ys)
       = render_step m p xs @ (CHR ''{'' # tok @ ''}'') @ render_step m p ys"
      using assms(1,2) p
    proof (rule render_step_around_token)
      assume "p = CHR ''{'' # tok @ ''}''"
      with p have "CHR ''{'' # tok @ ''}'' \<in> set PLACEHOLDERS" by simp
      then show "map_of m tok = None" by (rule assms(3))
    qed
  qed
  then show ?thesis
    by (simp add: render_def)
qed

lemma render_empty: "render b [] = b"
  by (simp add: render_def render_step_def PLACEHOLDERS_def)

text \<open>The renderer of the source is the specified one at the fixed sample values.\<close>

lemma updatePreview_is_render: "updatePreview b = render b preview_values"
  by (simp add: updatePreview_def render_def render_step_def PLACEHOLDERS_def placeholder_name_def
      preview_values_def)

text \<open>
  C7: the specified renderer \<open>render\<close> substitutes only supplied keys. With a mapping that
  has no keys it returns the body as it is. An unrecognized token \<^verbatim>\<open>{tok}\<close> (no brace inside)
  is left verbatim whatever the mapping: the text before it and the text after it are
  rendered on their own; the same holds for a recognized placeholder whose name the mapping
  does not supply. The renderer of the source, \<^verbatim>\<open>updatePreview\<close>, is \<open>render\<close> at the fixed
  sample values, and leaves unrecognized tokens verbatim too.
\<close>

theorem render_round_trip:
  "render b [] = b \<and>
   (CHR ''{'' \<notin> set tok \<and> CHR ''}'' \<notin> set tok \<and> CHR ''{'' # tok @ ''}'' \<notin> set PLACEHOLDERS \<longrightarrow>
      render (pre @ CHR ''{'' # tok @ ''}'' @ post) m
        = render pre m @ CHR ''{'' # tok @ ''}'' @ render post m) \<and>
   (CHR ''{'' # tok @ ''}'' \<in> set PLACEHOLDERS \<and> map_of m tok = None \<longrightarrow>
      render (pre @ CHR ''{'' # tok @ ''}'' @ post) m
        = render pre m @ CHR ''{'' # tok @ ''}'' @ render post m) \<and>
   updatePreview b = render b preview_values \<and>
   (CHR ''{'' \<notin> set tok \<and> CHR ''}'' \<notin> set tok \<and> CHR ''{'' # tok @ ''}'' \<notin> set PLACEHOLDERS \<longrightarrow>
      updatePreview (pre @ CHR ''{'' # tok @ ''}'' @ post)
        = updatePreview pre @ CHR ''{'' # tok @ ''}'' @ updatePreview post)"
proof -
  have 1: "render b [] = b"
    by (rule render_empty)
  have 2: "render (pre @ CHR ''{'' # tok @ ''}'' @ post) m
        = render pre m @ CHR ''{'' # tok @ ''}'' @ render post m"
    if "CHR ''{'' \<notin> set tok \<and> CHR ''}'' \<notin> set tok \<and> CHR ''{'' # tok @ ''}'' \<notin> set PLACEHOLDERS"
    using that by (intro render_around_token) simp_all
  have 3: "render (pre @ CHR ''{'' # tok @ ''}'' @ post) m
        = render pre m @ CHR ''{'' # tok @ ''}'' @ render post m"
    if h: "CHR ''{'' # tok @ ''}'' \<in> set PLACEHOLDERS \<and> map_of m tok = None"
  proof -
    from h have "tok = ''name'' \<or> tok = ''order_no'' \<or> tok = ''order_url'' \<or> tok = ''tracking_no''"
      by (simp add: PLACEHOLDERS_def)
    then have "CHR ''{'' \<notin> set tok" and "CHR ''}'' \<notin> set tok"
      by auto
    then show ?thesis
      using h by (intro render_around_token) simp_all
  qed
  have 4: "updatePreview b = render b preview_values"
    by (rule updatePreview_is_render)
  have 5: "updatePreview (pre @ CHR ''{'' # tok @ ''}'' @ post)
        = updatePreview pre @ CHR ''{'' # tok @ ''}'' @ updatePreview post"
    if "CHR ''{'' \<notin> set tok \<and> CHR ''}'' \<notin> set tok \<and> CHR ''{'' # tok @ ''}'' \<notin> set PLACEHOLDERS"
    using that by (intro updatePreview_around_token) simp_all
  show ?thesis
    using 1 2 3 4 5 by (intro conjI impI)
qed

theorem render_round_trip_witness:
  "render ''Hello {name}, #{order_no}'' [] = ''Hello {name}, #{order_no}'' \<and>
   CHR ''{'' \<notin> set ''foo'' \<and> CHR ''}'' \<notin> set ''foo'' \<and> CHR ''{'' # ''foo'' @ ''}'' \<notin> set PLACEHOLDERS \<and>
   render (''#{order_no} '' @ CHR ''{'' # ''foo'' @ ''}'' @ '' {tracking_no}'') [(''order_no'', ''1'')]
     = ''#1 {foo} {tracking_no}'' \<and>
   CHR ''{'' # ''name'' @ ''}'' \<in> set PLACEHOLDERS \<and> map_of [(''order_no'', ''1'')] ''name'' = None \<and>
   render (''Hi '' @ CHR ''{'' # ''name'' @ ''}'' @ '', #{order_no}'') [(''order_no'', ''1'')]
     = ''Hi {name}, #1'' \<and>
   render ([CHR 0xD9, CHR 0x8A, CHR 0xD8, CHR 0xA7] @ '' {name}, #{order_no}'')
       [(''name'', ''X''), (''order_no'', ''1'')]
     = [CHR 0xD9, CHR 0x8A, CHR 0xD8, CHR 0xA7] @ '' X, #1'' \<and>
   updatePreview (''#{order_no} '' @ CHR ''{'' # ''foo'' @ ''}'' @ '' {tracking_no}'')
     = ''#12345 {foo} TRK123''"
proof -
  let ?m = "[(''order_no'', ''1'')]"
  have a: "render ''Hello {name}, #{order_no}'' [] = ''Hello {name}, #{order_no}''"
    using render_round_trip [of "''Hello {name}, #{order_no}''"] by (rule conjunct1)
  have b: "CHR ''{'' \<notin> set ''foo'' \<and> CHR ''}'' \<notin> set ''foo'' \<and> CHR ''{'' # ''foo'' @ ''}'' \<notin> set PLACEHOLDERS"
    by (simp add: PLACEHOLDERS_def)
  have c: "render ''#{order_no} '' ?m = ''#1 ''" "render '' {tracking_no}'' ?m = '' {tracking_no}''"
    "render ''Hi '' ?m = ''Hi ''" "render '', #{order_no}'' ?m = '', #1''"
    by (simp_all add: render_def render_step_def PLACEHOLDERS_def placeholder_name_def replaceAll.simps)
  have "render (''#{order_no} '' @ CHR ''{'' # ''foo'' @ ''}'' @ '' {tracking_no}'') ?m
     = render ''#{order_no} '' ?m @ CHR ''{'' # ''foo'' @ ''}'' @ render '' {tracking_no}'' ?m"
    using render_round_trip [where tok = "''foo''" and pre = "''#{order_no} ''" and post = "'' {tracking_no}''"
        and m = ?m, THEN conjunct2, THEN conjunct1, rule_format, OF b] .
  then have d: "render (''#{order_no} '' @ CHR ''{'' # ''foo'' @ ''}'' @ '' {tracking_no}'') ?m
     = ''#1 {foo} {tracking_no}''"
    unfolding c by simp
  have e: "CHR ''{'' # ''name'' @ ''}'' \<in> set PLACEHOLDERS \<and> map_of ?m ''name'' = None"
    by (simp add: PLACEHOLDERS_def)
  have "render (''Hi '' @ CHR ''{'' # ''name'' @ ''}'' @ '', #{order_no}'') ?m
     = render ''Hi '' ?m @ CHR ''{'' # ''name'' @ ''}'' @ render '', #{order_no}'' ?m"
    using render_round_trip [where tok = "''name''" and pre = "''Hi ''" and post = "'', #{order_no}''"
        and m = ?m, THEN conjunct2, THEN conjunct2, THEN conjunct1, rule_format, OF e] .
  then have f: "render (''Hi '' @ CHR ''{'' # ''name'' @ ''}'' @ '', #{order_no}'') ?m = ''Hi {name}, #1''"
    unfolding c by simp
  have g: "render ([CHR 0xD9, CHR 0x8A, CHR 0xD8, CHR 0xA7] @ '' {name}, #{order_no}'')
       [(''name'', ''X''), (''order_no'', ''1'')]
     = [CHR 0xD9, CHR 0x8A, CHR 0xD8, CHR 0xA7] @ '' X, #1''"
    by (simp add: render_def render_step_def PLACEHOLDERS_def placeholder_name_def replaceAll.simps)
  have u: "updatePreview ''#{order_no} '' = ''#12345 ''" "updatePreview '' {tracking_no}'' = '' TRK123''"
    by (simp_all add: updatePreview_def replaceAll.simps)
  have "updatePreview (''#{order_no} '' @ CHR ''{'' # ''foo'' @ ''}'' @ '' {tracking_no}'')
     = updatePreview ''#{order_no} '' @ CHR ''{'' # ''foo'' @ ''}'' @ updatePreview '' {tracking_no}''"
    using render_round_trip [where tok = "''foo''" and pre = "''#{order_no} ''" and post = "'' {tracking_no}''",
        THEN conjunct2, THEN conjunct2, THEN conjunct2, THEN conjunct2, rule_format, OF b] .
  then have h: "updatePreview (''#{order_no} '' @ CHR ''{'' # ''foo'' @ ''}'' @ '' {tracking_no}'')
     = ''#12345 {foo} TRK123''"
    unfolding u by simp
  show ?thesis
    using a b d e f g h by (intro conjI) simp_all
qed

end
